theory Spec2Isabelle
  imports Main
begin

section \<open>Storage: the session ledger and the refresh-token store\<close>

text \<open>
  The two tables of \<^verbatim>\<open>db/migrations/create_sessions.sql\<close> and
  \<^verbatim>\<open>db/migrations/create_refresh_tokens.sql\<close>, one record per row. Identifiers
  (UUIDs) are strings, user ids are JavaScript numbers (\<open>int\<close>), timestamps are
  milliseconds since the epoch (\<open>int\<close>). A table is the list of its rows in table order.
  Every statement is modelled as succeeding: storage faults (a lost connection, a violated
  column constraint) are outside the model, except where a function takes an explicit
  failure flag. The statements of one call run in sequence on one connection, so
  \<^verbatim>\<open>BEGIN\<close> ... \<^verbatim>\<open>COMMIT\<close> is one atomic unit and \<^verbatim>\<open>ROLLBACK\<close> gives back the
  tables as they were at \<^verbatim>\<open>BEGIN\<close>; interleaving of concurrent calls is outside the
  model. \<^verbatim>\<open>NOW()\<close> and \<^verbatim>\<open>Date.now()\<close> of one call are one time, the argument
  \<open>now\<close>.
\<close>

type_synonym uuid = string
type_synonym timestamp = int

record session =
  s_id :: uuid
  s_user_id :: int
  s_token_id :: uuid
  s_device_type :: string
  s_device_name :: string
  s_browser :: string
  s_os :: string
  s_last_active :: timestamp
  s_created_at :: timestamp
  s_is_marked_for_deletion :: bool
  s_marked_at :: "timestamp option"
  s_activity_count :: int
  s_last_ip :: "string option"

record refresh_token =
  r_id :: uuid
  r_token_id :: uuid
  r_user_id :: int
  r_expires_at :: timestamp
  r_is_revoked :: bool
  r_created_at :: timestamp

record UserOfWA =
  u_id :: int
  u_username :: string
  u_password_hash :: string
  u_is_active :: bool

text \<open>
  The database. \<open>refresh_tokens\<close> is the relation that some statements name without
  the \<^verbatim>\<open>_wa\<close> suffix; no migration of the repository creates it, so it is \<open>None\<close>
  when the relation does not exist (a statement on it then raises) and \<open>Some rows\<close>
  when a deployment has it.
\<close>

record db =
  user_sessions_wa :: "session list"
  refresh_tokens_wa :: "refresh_token list"
  refresh_tokens :: "refresh_token list option"
  user_of_wa :: "UserOfWA list"

section \<open>SessionManager.cleanup\<close>

record CleanupMetrics =
  expiredTokens :: nat
  expiredSessions :: nat
  inactiveSessions :: nat
  markedSessions :: nat

text \<open>
  The three statements of \<^verbatim>\<open>SessionManager.cleanup\<close>, in order, at database time
  \<open>now\<close>: delete the marked sessions; revoke the tokens past their expiry; delete the
  sessions whose token id belongs to a revoked or expired token. Each count is the
  \<^verbatim>\<open>rowCount\<close> of its statement.
\<close>

definition cleanup :: "timestamp \<Rightarrow> db \<Rightarrow> CleanupMetrics \<times> db" where
  "cleanup now s =
     (let markedResult = filter s_is_marked_for_deletion (user_sessions_wa s);
          sessions1 = filter (\<lambda>r. \<not> s_is_marked_for_deletion r) (user_sessions_wa s);
          expiredTokensResult =
            filter (\<lambda>t. r_expires_at t < now \<and> \<not> r_is_revoked t) (refresh_tokens_wa s);
          tokens1 =
            map (\<lambda>t. if r_expires_at t < now \<and> \<not> r_is_revoked t
                      then t\<lparr>r_is_revoked := True\<rparr> else t) (refresh_tokens_wa s);
          dead = map r_token_id
                   (filter (\<lambda>t. r_is_revoked t \<or> r_expires_at t < now) tokens1);
          expiredSessionsResult = filter (\<lambda>r. s_token_id r \<in> set dead) sessions1;
          sessions2 = filter (\<lambda>r. s_token_id r \<notin> set dead) sessions1
      in (\<lparr>expiredTokens = length expiredTokensResult,
           expiredSessions = length expiredSessionsResult,
           inactiveSessions = 0,
           markedSessions = length markedResult\<rparr>,
          s\<lparr>user_sessions_wa := sessions2, refresh_tokens_wa := tokens1\<rparr>))"


section \<open>Configuration, device descriptors and fresh identifiers\<close>

text \<open>
  \<^verbatim>\<open>AUTH_CONFIG\<close>. The two lifetimes are the millisecond values \<^verbatim>\<open>ms(...)\<close> of the
  configured duration strings (\<^verbatim>\<open>'1h'\<close>, \<^verbatim>\<open>'7d'\<close> by default).
\<close>

record config =
  JWT_SECRET :: string
  TOKEN_EXPIRATION :: int
  REFRESH_TOKEN_EXPIRATION :: int
  MAX_SESSIONS_PER_USER :: int

record DeviceInfo =
  d_type :: string
  d_name :: string
  d_browser :: string
  d_os :: string
  d_ip :: "string option"

text \<open>
  The identifiers one token issuance draws: the primary key the database generates for
  the new session row, the \<^verbatim>\<open>uuidv4()\<close> of \<^verbatim>\<open>createSession\<close> and the
  \<^verbatim>\<open>uuidv4()\<close> of the refresh-token row.
\<close>

record fresh =
  new_session_id :: uuid
  new_token_id :: uuid
  new_refresh_id :: uuid

section \<open>The jsonwebtoken library\<close>

text \<open>
  A token string is either a well-formed JWT, given by its payload, its \<^verbatim>\<open>iat\<close> and
  \<^verbatim>\<open>exp\<close> claims (seconds) and the key that signed it, or any other string.
  \<^verbatim>\<open>jwt.sign\<close> with \<^verbatim>\<open>expiresIn\<close> stamps \<open>exp = iat + expiresIn\<close> in seconds;
  \<^verbatim>\<open>jwt.verify\<close> checks the format, then the signature, then the expiry
  (\<^verbatim>\<open>clockTimestamp >= exp\<close> is expired). In the library \<^verbatim>\<open>TokenExpiredError\<close> and
  \<^verbatim>\<open>NotBeforeError\<close> are subclasses of \<^verbatim>\<open>JsonWebTokenError\<close>.
\<close>

record TokenPayload =
  p_userId :: int
  p_tokenId :: uuid

datatype jwt = Signed TokenPayload int int string | Opaque string

datatype jwt_error = JsonWebTokenError string | TokenExpiredError | NotBeforeError

definition jwt_sign :: "TokenPayload \<Rightarrow> string \<Rightarrow> int \<Rightarrow> timestamp \<Rightarrow> jwt" where
  "jwt_sign payload secret expiresIn now =
     Signed payload (now div 1000) (now div 1000 + expiresIn div 1000) secret"

fun jwt_verify :: "jwt \<Rightarrow> string \<Rightarrow> timestamp \<Rightarrow> jwt_error + TokenPayload" where
  "jwt_verify (Opaque str) secret now = Inl (JsonWebTokenError ''jwt malformed'')"
| "jwt_verify (Signed payload iat ex k) secret now =
     (if k \<noteq> secret then Inl (JsonWebTokenError ''invalid signature'')
      else if now div 1000 \<ge> ex then Inl TokenExpiredError
      else Inr payload)"

fun jwt_decode :: "jwt \<Rightarrow> TokenPayload option" where
  "jwt_decode (Opaque str) = None"
| "jwt_decode (Signed payload iat ex k) = Some payload"

section \<open>Errors\<close>

text \<open>
  What the code throws: \<^verbatim>\<open>AuthError(message, status)\<close>, \<^verbatim>\<open>MaxSessionsError(sessions,
  userId)\<close>, an error of the JWT library, or a plain \<^verbatim>\<open>Error(message)\<close>.
\<close>

datatype error =
    AuthError string int
  | MaxSessionsError "session list" int
  | JwtError jwt_error
  | Error string

fun instanceof_JsonWebTokenError :: "error \<Rightarrow> bool" where
  "instanceof_JsonWebTokenError (JwtError e) = True"
| "instanceof_JsonWebTokenError e = False"

fun instanceof_TokenExpiredError :: "error \<Rightarrow> bool" where
  "instanceof_TokenExpiredError (JwtError TokenExpiredError) = True"
| "instanceof_TokenExpiredError e = False"

fun instanceof_AuthError :: "error \<Rightarrow> bool" where
  "instanceof_AuthError (AuthError m st) = True"
| "instanceof_AuthError e = False"

fun error_message :: "error \<Rightarrow> string" where
  "error_message (AuthError m st) = m"
| "error_message (MaxSessionsError ss u) = ''Maximum number of sessions reached''"
| "error_message (JwtError (JsonWebTokenError m)) = m"
| "error_message (JwtError TokenExpiredError) = ''jwt expired''"
| "error_message (JwtError NotBeforeError) = ''jwt not active''"
| "error_message (Error m) = m"

section \<open>TokenService\<close>

subsection \<open>Session creation and the limit check\<close>

text \<open>
  \<^verbatim>\<open>ORDER BY last_active ASC LIMIT 1\<close>: a row with the least \<^verbatim>\<open>last_active\<close>; among
  equal ones the database may return any, the model takes the first in table order.
\<close>

fun oldest_session :: "session list \<Rightarrow> session option" where
  "oldest_session [] = None"
| "oldest_session (r # rs) =
     (case oldest_session rs of
        None \<Rightarrow> Some r
      | Some m \<Rightarrow> if s_last_active r \<le> s_last_active m then Some r else Some m)"

definition enforceSessionLimit :: "config \<Rightarrow> int \<Rightarrow> db \<Rightarrow> db" where
  "enforceSessionLimit cfg uid s =
     (let sessionCount = int (length (filter (\<lambda>r. s_user_id r = uid) (user_sessions_wa s)))
      in if sessionCount \<ge> MAX_SESSIONS_PER_USER cfg
         then (case oldest_session (filter (\<lambda>r. s_user_id r = uid) (user_sessions_wa s)) of
                 None \<Rightarrow> s
               | Some victim \<Rightarrow>
                   s\<lparr>user_sessions_wa :=
                       filter (\<lambda>r. s_id r \<noteq> s_id victim) (user_sessions_wa s)\<rparr>)
         else s)"

text \<open>
  \<^verbatim>\<open>createSession(userId, deviceInfo, tokenId?)\<close>: \<^verbatim>\<open>tokenId || uuidv4()\<close> takes the
  fresh identifier when the argument is absent or the empty string. The columns the
  insert does not name get their defaults.
\<close>

definition createSession ::
  "config \<Rightarrow> timestamp \<Rightarrow> fresh \<Rightarrow> int \<Rightarrow> DeviceInfo \<Rightarrow> uuid option \<Rightarrow> db \<Rightarrow> uuid \<times> db" where
  "createSession cfg now fr uid deviceInfo tokenIdArg s =
     (let s1 = enforceSessionLimit cfg uid s;
          sessionTokenId =
            (case tokenIdArg of
               None \<Rightarrow> new_token_id fr
             | Some t \<Rightarrow> if t = [] then new_token_id fr else t);
          row = \<lparr>s_id = new_session_id fr, s_user_id = uid, s_token_id = sessionTokenId,
                 s_device_type = d_type deviceInfo, s_device_name = d_name deviceInfo,
                 s_browser = d_browser deviceInfo, s_os = d_os deviceInfo,
                 s_last_active = now, s_created_at = now,
                 s_is_marked_for_deletion = False, s_marked_at = None,
                 s_activity_count = 0, s_last_ip = d_ip deviceInfo\<rparr>
      in (sessionTokenId, s1\<lparr>user_sessions_wa := user_sessions_wa s1 @ [row]\<rparr>))"

record TokenResponse =
  t_token :: jwt
  t_refreshToken :: jwt
  t_sessionId :: uuid

definition generateTokens ::
  "config \<Rightarrow> timestamp \<Rightarrow> fresh \<Rightarrow> int \<Rightarrow> DeviceInfo \<Rightarrow> db \<Rightarrow> TokenResponse \<times> db" where
  "generateTokens cfg now fr uid deviceInfo s =
     (case createSession cfg now fr uid deviceInfo None s of
        (tid, s1) \<Rightarrow>
          (let accessToken =
                 jwt_sign \<lparr>p_userId = uid, p_tokenId = tid\<rparr> (JWT_SECRET cfg)
                   (TOKEN_EXPIRATION cfg) now;
               refreshToken =
                 jwt_sign \<lparr>p_userId = uid, p_tokenId = tid\<rparr> (JWT_SECRET cfg)
                   (REFRESH_TOKEN_EXPIRATION cfg) now;
               rrow = \<lparr>r_id = new_refresh_id fr, r_token_id = tid, r_user_id = uid,
                       r_expires_at = now + REFRESH_TOKEN_EXPIRATION cfg,
                       r_is_revoked = False, r_created_at = now\<rparr>
           in (\<lparr>t_token = accessToken, t_refreshToken = refreshToken, t_sessionId = tid\<rparr>,
               s1\<lparr>refresh_tokens_wa := refresh_tokens_wa s1 @ [rrow]\<rparr>)))"

definition getActiveSessions :: "int \<Rightarrow> db \<Rightarrow> int" where
  "getActiveSessions uid s =
     int (length (filter (\<lambda>r. s_user_id r = uid \<and> \<not> s_is_marked_for_deletion r)
                    (user_sessions_wa s)))"

subsection \<open>Verification\<close>

text \<open>
  \<^verbatim>\<open>updateSessionActivity\<close> catches a failure of its statement and logs it; the flag says
  whether the statement fails.
\<close>

definition updateSessionActivity :: "timestamp \<Rightarrow> bool \<Rightarrow> uuid \<Rightarrow> db \<Rightarrow> db" where
  "updateSessionActivity now updateFails tid s =
     (if updateFails then s
      else s\<lparr>user_sessions_wa :=
               map (\<lambda>r. if s_token_id r = tid then r\<lparr>s_last_active := now\<rparr> else r)
                 (user_sessions_wa s)\<rparr>)"

text \<open>The \<^verbatim>\<open>catch\<close> block of \<^verbatim>\<open>verifyToken\<close>, its tests in the order of the source.\<close>

definition verifyToken_catch :: "error \<Rightarrow> error" where
  "verifyToken_catch e =
     (if instanceof_JsonWebTokenError e then AuthError ''Invalid token'' 401
      else if instanceof_TokenExpiredError e then AuthError ''Token expired'' 401
      else e)"

definition verifyToken ::
  "config \<Rightarrow> timestamp \<Rightarrow> bool \<Rightarrow> jwt \<Rightarrow> db \<Rightarrow> (error + TokenPayload) \<times> db" where
  "verifyToken cfg now updateFails token s =
     (case jwt_verify token (JWT_SECRET cfg) now of
        Inl e \<Rightarrow> (Inl (verifyToken_catch (JwtError e)), s)
      | Inr decoded \<Rightarrow>
          (case filter (\<lambda>r. s_token_id r = p_tokenId decoded \<and> s_user_id r = p_userId decoded)
                  (user_sessions_wa s) of
             [] \<Rightarrow> (Inl (verifyToken_catch (AuthError ''Session not found'' 401)), s)
           | row # rows \<Rightarrow>
               (Inr decoded, updateSessionActivity now updateFails (p_tokenId decoded) s)))"

definition refresh_usable :: "timestamp \<Rightarrow> uuid \<Rightarrow> db \<Rightarrow> bool" where
  \<comment> \<open>\<^verbatim>\<open>EXISTS (... WHERE token_id = $1 AND NOT is_revoked AND expires_at > NOW())\<close>\<close>
  "refresh_usable now tid s =
     list_ex (\<lambda>t. r_token_id t = tid \<and> \<not> r_is_revoked t \<and> r_expires_at t > now)
       (refresh_tokens_wa s)"

definition handleExpiredToken :: "timestamp \<Rightarrow> uuid \<Rightarrow> db \<Rightarrow> db" where
  "handleExpiredToken now tid s =
     (let s1 = s\<lparr>user_sessions_wa :=
                  map (\<lambda>r. if s_token_id r = tid
                            then r\<lparr>s_is_marked_for_deletion := True, s_marked_at := Some now\<rparr>
                            else r) (user_sessions_wa s)\<rparr>;
          s2 = s1\<lparr>refresh_tokens_wa :=
                   map (\<lambda>t. if r_token_id t = tid then t\<lparr>r_is_revoked := True\<rparr> else t)
                     (refresh_tokens_wa s1)\<rparr>
      in if refresh_usable now tid s2 then s2
         else s2\<lparr>user_sessions_wa := filter (\<lambda>r. s_token_id r \<noteq> tid) (user_sessions_wa s2)\<rparr>)"

text \<open>
  The middleware \<^verbatim>\<open>authenticateToken\<close>. Its input is the bearer token of the
  \<^verbatim>\<open>Authorization\<close> header (\<open>None\<close> when there is none); it either calls
  \<^verbatim>\<open>next()\<close> with the decoded payload or answers with a status and an error message.
\<close>

datatype 'a outcome = Next 'a | Respond int string

definition authenticateToken ::
  "config \<Rightarrow> timestamp \<Rightarrow> bool \<Rightarrow> jwt option \<Rightarrow> db \<Rightarrow> TokenPayload outcome \<times> db" where
  "authenticateToken cfg now updateFails tokenArg s =
     (case tokenArg of
        None \<Rightarrow> (Respond 401 ''No token provided'', s)
      | Some token \<Rightarrow>
          (case verifyToken cfg now updateFails token s of
             (Inr decoded, s1) \<Rightarrow> (Next decoded, s1)
           | (Inl err, s1) \<Rightarrow>
               if instanceof_TokenExpiredError err
               then (Respond 401 ''Token expired'',
                     (case jwt_decode token of
                        None \<Rightarrow> s1
                      | Some d \<Rightarrow> if p_tokenId d = [] then s1
                                  else handleExpiredToken now (p_tokenId d) s1))
               else (Respond 401 ''Invalid token'', s1)))"

subsection \<open>Rotation\<close>

definition isRefreshTokenValid :: "config \<Rightarrow> timestamp \<Rightarrow> jwt \<Rightarrow> db \<Rightarrow> bool" where
  "isRefreshTokenValid cfg now refreshToken s =
     (case jwt_verify refreshToken (JWT_SECRET cfg) now of
        Inl e \<Rightarrow> False
      | Inr decoded \<Rightarrow> refresh_usable now (p_tokenId decoded) s)"

text \<open>The \<^verbatim>\<open>catch\<close> block of \<^verbatim>\<open>rotateTokens\<close>, after its \<^verbatim>\<open>ROLLBACK\<close>.\<close>

definition rotateTokens_catch :: "error \<Rightarrow> error" where
  "rotateTokens_catch e =
     (if instanceof_AuthError e then e else AuthError ''Failed to rotate tokens'' 401)"

text \<open>
  \<^verbatim>\<open>rotateTokens\<close>. Every \<^verbatim>\<open>throw\<close> is followed by \<^verbatim>\<open>ROLLBACK\<close>, which gives back
  the tables as they were at \<^verbatim>\<open>BEGIN\<close>. The session lookup has no \<^verbatim>\<open>ORDER BY\<close>;
  \<^verbatim>\<open>rows[0]\<close> is the first matching row in table order.
\<close>

definition rotateTokens ::
  "config \<Rightarrow> timestamp \<Rightarrow> fresh \<Rightarrow> jwt \<Rightarrow> db \<Rightarrow> (error + TokenResponse) \<times> db" where
  "rotateTokens cfg now fr refreshToken s =
     (case jwt_verify refreshToken (JWT_SECRET cfg) now of
        Inl e \<Rightarrow> (Inl (rotateTokens_catch (JwtError e)), s)
      | Inr decoded \<Rightarrow>
          if \<not> isRefreshTokenValid cfg now refreshToken s
          then (Inl (rotateTokens_catch (AuthError ''Invalid refresh token'' 401)), s)
          else
            (case filter (\<lambda>r. s_token_id r = p_tokenId decoded) (user_sessions_wa s) of
               [] \<Rightarrow> (Inl (rotateTokens_catch (AuthError ''Session not found'' 401)), s)
             | row # rows \<Rightarrow>
                 (let deviceInfo = \<lparr>d_type = s_device_type row, d_name = s_device_name row,
                                     d_browser = s_browser row, d_os = s_os row,
                                     d_ip = s_last_ip row\<rparr>
                  in case generateTokens cfg now fr (p_userId decoded) deviceInfo s of
                       (newTokens, s1) \<Rightarrow>
                         (Inr newTokens,
                          s1\<lparr>refresh_tokens_wa :=
                               map (\<lambda>t. if r_token_id t = p_tokenId decoded
                                         then t\<lparr>r_is_revoked := True\<rparr> else t)
                                 (refresh_tokens_wa s1)\<rparr>))))"

text \<open>
  \<^verbatim>\<open>refreshAccessToken\<close>, the function the refresh route calls, is the only caller of
  \<^verbatim>\<open>rotateTokens\<close> besides \<^verbatim>\<open>AuthService.refreshToken\<close>, whose body is the same. It
  asks \<^verbatim>\<open>isRefreshTokenValid\<close> first and throws when the answer is no; its \<^verbatim>\<open>catch\<close>
  renames a \<^verbatim>\<open>TokenExpiredError\<close> and rethrows every other error.
\<close>

definition refreshAccessToken_catch :: "error \<Rightarrow> error" where
  "refreshAccessToken_catch e =
     (if instanceof_TokenExpiredError e then AuthError ''Refresh token expired'' 401 else e)"

definition refreshAccessToken ::
  "config \<Rightarrow> timestamp \<Rightarrow> fresh \<Rightarrow> jwt \<Rightarrow> db \<Rightarrow> (error + TokenResponse) \<times> db" where
  "refreshAccessToken cfg now fr refreshToken s =
     (if \<not> isRefreshTokenValid cfg now refreshToken s
      then (Inl (refreshAccessToken_catch (AuthError ''Invalid refresh token'' 401)), s)
      else (case rotateTokens cfg now fr refreshToken s of
              (Inl e, s1) \<Rightarrow> (Inl (refreshAccessToken_catch e), s1)
            | (Inr tokens, s1) \<Rightarrow> (Inr tokens, s1)))"

definition AuthService_refreshToken ::
  "config \<Rightarrow> timestamp \<Rightarrow> fresh \<Rightarrow> jwt \<Rightarrow> db \<Rightarrow> (error + TokenResponse) \<times> db" where
  "AuthService_refreshToken cfg now fr refreshToken s =
     (if \<not> isRefreshTokenValid cfg now refreshToken s
      then (Inl (refreshAccessToken_catch (AuthError ''Invalid refresh token'' 401)), s)
      else (case rotateTokens cfg now fr refreshToken s of
              (Inl e, s1) \<Rightarrow> (Inl (refreshAccessToken_catch e), s1)
            | (Inr tokens, s1) \<Rightarrow> (Inr tokens, s1)))"

subsection \<open>Logout\<close>

definition isSessionValid :: "uuid \<Rightarrow> db \<Rightarrow> bool" where
  "isSessionValid tid s = list_ex (\<lambda>r. s_token_id r = tid) (user_sessions_wa s)"

text \<open>
  \<^verbatim>\<open>TokenService.logout\<close>: delete the session, revoke the token, read the flag back
  (\<^verbatim>\<open>rows[0]?.is_revoked\<close> of the rows with that token id) and throw after a
  \<^verbatim>\<open>ROLLBACK\<close> when it is not set. \<open>None\<close> is the normal return.
\<close>

definition TokenService_logout :: "int \<Rightarrow> uuid \<Rightarrow> db \<Rightarrow> error option \<times> db" where
  "TokenService_logout uid tid s =
     (let s1 = s\<lparr>user_sessions_wa :=
                  filter (\<lambda>r. \<not> (s_user_id r = uid \<and> s_token_id r = tid))
                    (user_sessions_wa s)\<rparr>;
          s2 = s1\<lparr>refresh_tokens_wa :=
                   map (\<lambda>t. if r_user_id t = uid \<and> r_token_id t = tid
                             then t\<lparr>r_is_revoked := True\<rparr> else t)
                     (refresh_tokens_wa s1)\<rparr>
      in case filter (\<lambda>t. r_token_id t = tid) (refresh_tokens_wa s2) of
           [] \<Rightarrow> (Some (Error ''Failed to revoke refresh token''), s)
         | t # ts \<Rightarrow>
             if r_is_revoked t then (None, s2)
             else (Some (Error ''Failed to revoke refresh token''), s))"

text \<open>
  The controller \<^verbatim>\<open>handleLogout\<close>. The result is the HTTP status with its message, the
  messages given to \<^verbatim>\<open>Logger.error\<close>, and the tables. The double check calls
  \<^verbatim>\<open>isRefreshTokenValid(tokenId)\<close> with the token id, a UUID and so not a JWT.
\<close>

definition handleLogout ::
  "config \<Rightarrow> timestamp \<Rightarrow> TokenPayload option \<Rightarrow> db \<Rightarrow> (int \<times> string) \<times> string list \<times> db" where
  "handleLogout cfg now user s =
     (case user of
        None \<Rightarrow> ((401, ''No valid session found''), [], s)
      | Some u \<Rightarrow>
          if p_userId u = 0 \<or> p_tokenId u = []
          then ((401, ''No valid session found''), [], s)
          else
            (case TokenService_logout (p_userId u) (p_tokenId u) s of
               (Some e, s1) \<Rightarrow>
                 ((500, ''Failed to logout''), [''Logout failed'', ''Logout handler error''], s1)
             | (None, s1) \<Rightarrow>
                 (let sessionStillExists = isSessionValid (p_tokenId u) s1;
                      tokenStillValid = isRefreshTokenValid cfg now (Opaque (p_tokenId u)) s1
                  in ((200, ''Logged out successfully''),
                      (if sessionStillExists \<or> tokenStillValid
                       then [''Cleanup verification failed''] else []),
                      s1))))"

text \<open>
  \<^verbatim>\<open>AuthService.logout(sessionId, userId)\<close>, the logout the tests call: it looks the
  session up by its primary key and owner, throws \<^verbatim>\<open>Session not found\<close> (404) after a
  \<^verbatim>\<open>ROLLBACK\<close> when there is none, and otherwise marks the session for deletion and
  revokes the token rows of its token id.
\<close>

definition AuthService_logout :: "timestamp \<Rightarrow> uuid \<Rightarrow> int \<Rightarrow> db \<Rightarrow> (error + bool) \<times> db" where
  "AuthService_logout now sid uid s =
     (case filter (\<lambda>r. s_id r = sid \<and> s_user_id r = uid) (user_sessions_wa s) of
        [] \<Rightarrow> (Inl (AuthError ''Session not found'' 404), s)
      | row # rows \<Rightarrow>
          (let s1 = s\<lparr>user_sessions_wa :=
                       map (\<lambda>r. if s_id r = sid \<and> s_user_id r = uid
                                 then r\<lparr>s_is_marked_for_deletion := True,
                                        s_marked_at := Some now\<rparr>
                                 else r) (user_sessions_wa s)\<rparr>;
               s2 = s1\<lparr>refresh_tokens_wa :=
                        map (\<lambda>t. if r_token_id t = s_token_id row
                                  then t\<lparr>r_is_revoked := True\<rparr> else t)
                          (refresh_tokens_wa s1)\<rparr>
           in (Inr True, s2)))"

section \<open>Pre-login termination\<close>

record PreLoginTerminationResponse =
  success :: bool
  status :: int
  message :: string
  remainingSessions :: "int option"

text \<open>
  \<^verbatim>\<open>terminatePreLoginSession\<close> opens its transaction with
  \<^verbatim>\<open>query('SET LOCAL lock_timeout = $1', [TERMINATION_LOCK_TIMEOUT])\<close>. PostgreSQL takes
  bind parameters in data statements only; a \<^verbatim>\<open>SET\<close> sent with one is refused with a
  syntax error, whatever the value.
\<close>

definition TERMINATION_LOCK_TIMEOUT :: int where
  "TERMINATION_LOCK_TIMEOUT = 5000"

definition query_set_local_lock_timeout :: "int \<Rightarrow> error option" where
  "query_set_local_lock_timeout ms = Some (Error ''syntax error at or near $1'')"

text \<open>
  The inner \<^verbatim>\<open>try\<close> block of \<^verbatim>\<open>terminatePreLoginSession\<close>, with the answer its
  outcome leads to. The row lock is not modelled. The token rows are deleted from the
  relation \<^verbatim>\<open>refresh_tokens\<close>, as the statement names it; when that relation does not
  exist the statement raises, the transaction is rolled back and the answer is 500.
\<close>

definition terminate_locked ::
  "int \<Rightarrow> uuid \<Rightarrow> db \<Rightarrow> PreLoginTerminationResponse \<times> db" where
  "terminate_locked uid sid s =
     (case filter (\<lambda>r. s_id r = sid \<and> s_user_id r = uid) (user_sessions_wa s) of
        [] \<Rightarrow>
          (\<lparr>success = False, status = 404,
            message = ''Session not found or already terminated'',
            remainingSessions = None\<rparr>, s)
      | row # rows \<Rightarrow>
          (case refresh_tokens s of
             None \<Rightarrow>
               (\<lparr>success = False, status = 500, message = ''Failed to terminate session'',
                 remainingSessions = None\<rparr>, s)
           | Some legacy \<Rightarrow>
               (let s1 = s\<lparr>refresh_tokens :=
                            Some (filter (\<lambda>t. r_token_id t \<noteq> s_token_id row) legacy)\<rparr>;
                    s2 = s1\<lparr>user_sessions_wa :=
                             filter (\<lambda>r. \<not> (s_id r = sid \<and> s_user_id r = uid))
                               (user_sessions_wa s1)\<rparr>;
                    count = int (length (filter (\<lambda>r. s_user_id r = uid) (user_sessions_wa s2)))
                in (\<lparr>success = True, status = 200,
                     message = ''Session terminated successfully'',
                     remainingSessions = Some count\<rparr>, s2))))"

text \<open>
  \<^verbatim>\<open>terminatePreLoginSession\<close>: \<^verbatim>\<open>BEGIN\<close>, the \<^verbatim>\<open>SET LOCAL\<close> statement, then the
  inner block. The \<^verbatim>\<open>SET LOCAL\<close> statement stands before the inner \<^verbatim>\<open>try\<close>, so its
  error goes to the outer \<^verbatim>\<open>catch\<close>, which answers 500; nothing has been written.
\<close>

definition terminatePreLoginSession ::
  "int \<Rightarrow> uuid \<Rightarrow> db \<Rightarrow> PreLoginTerminationResponse \<times> db" where
  "terminatePreLoginSession uid sid s =
     (case query_set_local_lock_timeout TERMINATION_LOCK_TIMEOUT of
        Some e \<Rightarrow>
          (\<lparr>success = False, status = 500, message = ''Failed to terminate session'',
            remainingSessions = None\<rparr>, s)
      | None \<Rightarrow> terminate_locked uid sid s)"

section \<open>Login\<close>

text \<open>
  \<^verbatim>\<open>SessionManager.getUserSessions\<close>: the user's sessions that are not marked, most
  recently active first.
\<close>

definition getUserSessions :: "int \<Rightarrow> db \<Rightarrow> session list" where
  "getUserSessions uid s =
     sort_key (\<lambda>r. - s_last_active r)
       (filter (\<lambda>r. s_user_id r = uid \<and> \<not> s_is_marked_for_deletion r) (user_sessions_wa s))"

text \<open>
  The credential store. \<^verbatim>\<open>sanitizeInput\<close> (trim and lower-case) and
  \<^verbatim>\<open>bcrypt.compare\<close> are library functions, taken as parameters.
\<close>

record credentials =
  sanitizeInput :: "string \<Rightarrow> string"
  bcrypt_compare :: "string \<Rightarrow> string \<Rightarrow> bool"

definition findByUsername :: "credentials \<Rightarrow> string \<Rightarrow> db \<Rightarrow> UserOfWA option" where
  "findByUsername cr username s =
     (case filter (\<lambda>u. u_username u = sanitizeInput cr username) (user_of_wa s) of
        [] \<Rightarrow> None
      | u # us \<Rightarrow> Some u)"

definition verifyPassword :: "credentials \<Rightarrow> UserOfWA \<Rightarrow> string \<Rightarrow> bool" where
  "verifyPassword cr user password = bcrypt_compare cr password (u_password_hash user)"

text \<open>
  \<^verbatim>\<open>AuthService.login\<close>. Its \<^verbatim>\<open>catch\<close> logs and rethrows, so every error leaves as
  it was thrown.
\<close>

definition AuthService_login ::
  "credentials \<Rightarrow> config \<Rightarrow> timestamp \<Rightarrow> fresh \<Rightarrow> string \<Rightarrow> string \<Rightarrow> DeviceInfo \<Rightarrow> db
     \<Rightarrow> (error + TokenResponse) \<times> db" where
  "AuthService_login cr cfg now fr username password deviceInfo s =
     (case findByUsername cr username s of
        None \<Rightarrow> (Inl (AuthError ''Invalid credentials'' 401), s)
      | Some user \<Rightarrow>
          if \<not> u_is_active user then (Inl (AuthError ''Invalid credentials'' 401), s)
          else if \<not> verifyPassword cr user password
          then (Inl (AuthError ''Invalid credentials'' 401), s)
          else if getActiveSessions (u_id user) s \<ge> MAX_SESSIONS_PER_USER cfg
          then (Inl (MaxSessionsError [] (u_id user)), s)
          else (case generateTokens cfg now fr (u_id user) deviceInfo s of
                  (tokens, s1) \<Rightarrow> (Inr tokens, s1)))"

text \<open>
  \<^verbatim>\<open>authenticateUser\<close> of \<^verbatim>\<open>services/auth\<close>, called by the login route. The
  \<^verbatim>\<open>MaxSessionsError\<close> is thrown inside the function's own \<^verbatim>\<open>try\<close>, so its
  \<^verbatim>\<open>catch\<close> turns it into a failed result carrying the error's message.
\<close>

record AuthResult =
  a_success :: bool
  a_token :: "jwt option"
  a_refreshToken :: "jwt option"
  a_user :: "(int \<times> string) option"
  a_message :: "string option"
  a_error :: "string option"

definition authenticateUser ::
  "credentials \<Rightarrow> config \<Rightarrow> timestamp \<Rightarrow> fresh \<Rightarrow> string \<Rightarrow> string \<Rightarrow> DeviceInfo \<Rightarrow> db
     \<Rightarrow> AuthResult \<times> db" where
  "authenticateUser cr cfg now fr username password deviceInfo s =
     (let invalid = \<lparr>a_success = False, a_token = None, a_refreshToken = None, a_user = None,
                      a_message = Some ''Invalid credentials'', a_error = None\<rparr>
      in case findByUsername cr username s of
           None \<Rightarrow> (invalid, s)
         | Some user \<Rightarrow>
             if \<not> verifyPassword cr user password then (invalid, s)
             else if getActiveSessions (u_id user) s \<ge> MAX_SESSIONS_PER_USER cfg
             then (\<lparr>a_success = False, a_token = None, a_refreshToken = None, a_user = None,
                    a_message = None,
                    a_error = Some (error_message (MaxSessionsError [] (u_id user)))\<rparr>, s)
             else (case generateTokens cfg now fr (u_id user) deviceInfo s of
                     (tokens, s1) \<Rightarrow>
                       (\<lparr>a_success = True, a_token = Some (t_token tokens),
                         a_refreshToken = Some (t_refreshToken tokens),
                         a_user = Some (u_id user, u_username user),
                         a_message = None, a_error = None\<rparr>, s1)))"

section \<open>Example data\<close>

text \<open>
  The default configuration (\<^verbatim>\<open>'1h'\<close>, \<^verbatim>\<open>'7d'\<close>, three sessions), the device of
  \<^verbatim>\<open>tests/auth-flow.test.ts\<close>, and a database where user 7 has three sessions, created
  at times 1000, 2000 and 3000, each with its refresh token.
\<close>

definition cfg3 :: config where
  "cfg3 = \<lparr>JWT_SECRET = ''0123456789abcdef0123456789abcdef'',
           TOKEN_EXPIRATION = 3600000, REFRESH_TOKEN_EXPIRATION = 604800000,
           MAX_SESSIONS_PER_USER = 3\<rparr>"

definition testDeviceInfo :: DeviceInfo where
  "testDeviceInfo = \<lparr>d_type = ''browser'', d_name = ''test-device'',
                      d_browser = ''test-browser'', d_os = ''test-os'',
                      d_ip = Some ''127.0.0.1''\<rparr>"

definition mk_session :: "uuid \<Rightarrow> int \<Rightarrow> uuid \<Rightarrow> timestamp \<Rightarrow> session" where
  "mk_session sid uid tid t =
     \<lparr>s_id = sid, s_user_id = uid, s_token_id = tid,
      s_device_type = ''browser'', s_device_name = ''test-device'',
      s_browser = ''test-browser'', s_os = ''test-os'',
      s_last_active = t, s_created_at = t,
      s_is_marked_for_deletion = False, s_marked_at = None,
      s_activity_count = 0, s_last_ip = Some ''127.0.0.1''\<rparr>"

definition mk_refresh :: "uuid \<Rightarrow> int \<Rightarrow> uuid \<Rightarrow> timestamp \<Rightarrow> refresh_token" where
  "mk_refresh rid uid tid t =
     \<lparr>r_id = rid, r_token_id = tid, r_user_id = uid,
      r_expires_at = t + 604800000, r_is_revoked = False, r_created_at = t\<rparr>"

definition alice :: UserOfWA where
  "alice = \<lparr>u_id = 7, u_username = ''alice'', u_password_hash = ''testpass'',
            u_is_active = True\<rparr>"

definition db3 :: db where
  "db3 = \<lparr>user_sessions_wa =
            [mk_session ''s1'' 7 ''t1'' 1000, mk_session ''s2'' 7 ''t2'' 2000,
             mk_session ''s3'' 7 ''t3'' 3000],
          refresh_tokens_wa =
            [mk_refresh ''r1'' 7 ''t1'' 1000, mk_refresh ''r2'' 7 ''t2'' 2000,
             mk_refresh ''r3'' 7 ''t3'' 3000],
          refresh_tokens = Some [],
          user_of_wa = [alice]\<rparr>"

definition db1 :: db where
  "db1 = \<lparr>user_sessions_wa = [mk_session ''s1'' 7 ''t1'' 1000],
          refresh_tokens_wa = [mk_refresh ''r1'' 7 ''t1'' 1000],
          refresh_tokens = Some [],
          user_of_wa = [alice]\<rparr>"

definition fresh4 :: fresh where
  "fresh4 = \<lparr>new_session_id = ''s4'', new_token_id = ''t4'', new_refresh_id = ''r4''\<rparr>"

definition fresh5 :: fresh where
  "fresh5 = \<lparr>new_session_id = ''s5'', new_token_id = ''t5'', new_refresh_id = ''r5''\<rparr>"

definition plain :: credentials where
  "plain = \<lparr>sanitizeInput = (\<lambda>x. x), bcrypt_compare = (\<lambda>password hash. hash = password)\<rparr>"

text \<open>The tokens issued with the session \<^verbatim>\<open>t1\<close> at time 1000.\<close>

definition access1 :: jwt where
  "access1 = jwt_sign \<lparr>p_userId = 7, p_tokenId = ''t1''\<rparr> (JWT_SECRET cfg3) (TOKEN_EXPIRATION cfg3) 1000"

definition refresh1 :: jwt where
  "refresh1 = jwt_sign \<lparr>p_userId = 7, p_tokenId = ''t1''\<rparr> (JWT_SECRET cfg3)
                (REFRESH_TOKEN_EXPIRATION cfg3) 1000"

definition db_marked :: db where
  "db_marked =
     db3\<lparr>user_sessions_wa :=
           [(mk_session ''s1'' 7 ''t1'' 1000)
              \<lparr>s_is_marked_for_deletion := True, s_marked_at := Some 4000\<rparr>,
            mk_session ''s2'' 7 ''t2'' 2000, mk_session ''s3'' 7 ''t3'' 3000]\<rparr>"

text \<open>
  Two further databases: one where the session \<^verbatim>\<open>t1\<close> has no refresh-token row, and
  one where a session of another user carries the same token id.
\<close>

definition db_no_token :: db where
  "db_no_token = db1\<lparr>refresh_tokens_wa := []\<rparr>"

definition db_shared :: db where
  "db_shared = db1\<lparr>user_sessions_wa :=
                     [mk_session ''s1'' 7 ''t1'' 1000, mk_session ''s9'' 8 ''t1'' 1500]\<rparr>"

text \<open>A database whose only session is already marked for deletion.\<close>

definition db1_marked :: db where
  "db1_marked =
     db1\<lparr>user_sessions_wa :=
           [(mk_session ''s1'' 7 ''t1'' 1000)
              \<lparr>s_is_marked_for_deletion := True, s_marked_at := Some 4000\<rparr>]\<rparr>"

section \<open>Properties\<close>

lemmas example_defs = cfg3_def testDeviceInfo_def mk_session_def mk_refresh_def alice_def
  db3_def db1_def db_marked_def db_no_token_def db_shared_def db1_marked_def fresh4_def fresh5_def plain_def
  access1_def refresh1_def jwt_sign_def

subsection \<open>Shared facts about issuing and rotating\<close>

lemma enforceSessionLimit_tokens [simp]:
  "refresh_tokens_wa (enforceSessionLimit cfg uid s) = refresh_tokens_wa s"
  by (simp add: enforceSessionLimit_def Let_def split: option.splits)

lemma generateTokens_result:
  assumes "generateTokens cfg now fr uid dev s = (resp, s1)"
  shows "t_sessionId resp = new_token_id fr"
    and "t_token resp = Signed \<lparr>p_userId = uid, p_tokenId = new_token_id fr\<rparr> (now div 1000)
                           (now div 1000 + TOKEN_EXPIRATION cfg div 1000) (JWT_SECRET cfg)"
    and "t_refreshToken resp = Signed \<lparr>p_userId = uid, p_tokenId = new_token_id fr\<rparr> (now div 1000)
                           (now div 1000 + REFRESH_TOKEN_EXPIRATION cfg div 1000) (JWT_SECRET cfg)"
    and "user_sessions_wa s1 = user_sessions_wa (enforceSessionLimit cfg uid s) @
           [\<lparr>s_id = new_session_id fr, s_user_id = uid, s_token_id = new_token_id fr,
                 s_device_type = d_type dev, s_device_name = d_name dev,
                 s_browser = d_browser dev, s_os = d_os dev,
                 s_last_active = now, s_created_at = now,
                 s_is_marked_for_deletion = False, s_marked_at = None,
                 s_activity_count = 0, s_last_ip = d_ip dev\<rparr>]"
    and "refresh_tokens_wa s1 = refresh_tokens_wa s @
           [\<lparr>r_id = new_refresh_id fr, r_token_id = new_token_id fr, r_user_id = uid,
                       r_expires_at = now + REFRESH_TOKEN_EXPIRATION cfg,
                       r_is_revoked = False, r_created_at = now\<rparr>]"
  using assms
  by (auto simp: generateTokens_def createSession_def Let_def jwt_sign_def)

lemma enforceSessionLimit_below:
  "int (length (filter (\<lambda>r. s_user_id r = uid) (user_sessions_wa s))) < MAX_SESSIONS_PER_USER cfg
     \<Longrightarrow> enforceSessionLimit cfg uid s = s"
  by (simp add: enforceSessionLimit_def Let_def)

lemma oldest_session_mem:
  "oldest_session rs = Some v \<Longrightarrow> v \<in> set rs"
  by (induction rs arbitrary: v) (auto split: option.splits if_splits)

lemma oldest_session_nonempty:
  "rs \<noteq> [] \<Longrightarrow> oldest_session rs \<noteq> None"
  by (cases rs) (auto split: option.splits)

lemma rotateTokens_unusable:
  assumes "jwt_decode rt = Some d"
      and "\<not> refresh_usable now (p_tokenId d) s"
  shows "rotateTokens cfg now fr rt s =
           (Inl (AuthError (case jwt_verify rt (JWT_SECRET cfg) now of
                             Inl e \<Rightarrow> ''Failed to rotate tokens''
                           | Inr p \<Rightarrow> ''Invalid refresh token'') 401), s)"
proof (cases rt)
  case (Opaque x)
  with assms(1) show ?thesis by simp
next
  case (Signed p iat ex k)
  with assms(1) have d: "d = p" by simp
  show ?thesis
  proof (cases "jwt_verify rt (JWT_SECRET cfg) now")
    case (Inl e)
    then show ?thesis
      by (simp add: rotateTokens_def rotateTokens_catch_def)
  next
    case (Inr q)
    with Signed have "q = p" by (simp split: if_splits)
    with Inr assms(2) d show ?thesis
      by (simp add: rotateTokens_def rotateTokens_catch_def isRefreshTokenValid_def)
  qed
qed

lemma rotateTokens_success:
  assumes "rotateTokens cfg now fr rt s = (Inr resp, s1)"
  shows "\<exists>d. jwt_decode rt = Some d \<and> jwt_verify rt (JWT_SECRET cfg) now = Inr d
           \<and> refresh_usable now (p_tokenId d) s
           \<and> (\<exists>row rows. filter (\<lambda>r. s_token_id r = p_tokenId d) (user_sessions_wa s) = row # rows
                \<and> (\<exists>s0. generateTokens cfg now fr (p_userId d)
                          \<lparr>d_type = s_device_type row, d_name = s_device_name row,
                           d_browser = s_browser row, d_os = s_os row, d_ip = s_last_ip row\<rparr> s
                          = (resp, s0)
                      \<and> s1 = s0\<lparr>refresh_tokens_wa :=
                               map (\<lambda>t. if r_token_id t = p_tokenId d
                                         then t\<lparr>r_is_revoked := True\<rparr> else t)
                                 (refresh_tokens_wa s0)\<rparr>))"
proof (cases rt)
  case (Opaque x)
  with assms show ?thesis by (simp add: rotateTokens_def)
next
  case (Signed p iat ex k)
  show ?thesis
  proof (cases "jwt_verify rt (JWT_SECRET cfg) now")
    case (Inl e)
    with assms show ?thesis by (simp add: rotateTokens_def)
  next
    case (Inr q)
    with Signed have q: "q = p" by (simp split: if_splits)
    from Signed have dec: "jwt_decode rt = Some p" by simp
    from assms Inr q have val: "isRefreshTokenValid cfg now rt s"
      by (auto simp: rotateTokens_def split: if_splits)
    then have us: "refresh_usable now (p_tokenId p) s"
      using Inr q by (simp add: isRefreshTokenValid_def)
    from assms Inr q val obtain row rows where
      f: "filter (\<lambda>r. s_token_id r = p_tokenId p) (user_sessions_wa s) = row # rows"
      by (auto simp: rotateTokens_def split: list.splits)
    obtain r0 s0 where g: "generateTokens cfg now fr (p_userId p)
                          \<lparr>d_type = s_device_type row, d_name = s_device_name row,
                           d_browser = s_browser row, d_os = s_os row, d_ip = s_last_ip row\<rparr> s
                          = (r0, s0)" by fastforce
    from assms Inr q val f g have "resp = r0" and
       "s1 = s0\<lparr>refresh_tokens_wa :=
                               map (\<lambda>t. if r_token_id t = p_tokenId p
                                         then t\<lparr>r_is_revoked := True\<rparr> else t)
                                 (refresh_tokens_wa s0)\<rparr>"
      by (auto simp: rotateTokens_def Let_def)
    with dec Inr q us f g show ?thesis by blast
  qed
qed

lemma revoked_not_usable:
  "\<not> refresh_usable now tid
       (s0\<lparr>refresh_tokens_wa :=
            map (\<lambda>t. if r_token_id t = tid then t\<lparr>r_is_revoked := True\<rparr> else t) ts\<rparr>)"
  by (induction ts) (auto simp: refresh_usable_def)

lemma isRefreshTokenValid_Opaque [simp]:
  "isRefreshTokenValid cfg now (Opaque x) s = False"
  by (simp add: isRefreshTokenValid_def)

lemma AuthService_refreshToken_eq:
  "AuthService_refreshToken cfg now fr rt s = refreshAccessToken cfg now fr rt s"
  by (simp add: AuthService_refreshToken_def refreshAccessToken_def)

lemma unusable_not_valid:
  assumes "jwt_decode rt = Some d"
      and "\<not> refresh_usable now (p_tokenId d) s"
  shows "\<not> isRefreshTokenValid cfg now rt s"
proof (cases rt)
  case (Opaque x)
  then show ?thesis by (simp add: isRefreshTokenValid_def)
next
  case (Signed p iat ex k)
  with assms(1) have "d = p" by simp
  with Signed assms(2) show ?thesis
    by (simp add: isRefreshTokenValid_def)
qed

lemma refreshAccessToken_invalid:
  "\<not> isRefreshTokenValid cfg now rt s \<Longrightarrow>
     refreshAccessToken cfg now fr rt s = (Inl (AuthError ''Invalid refresh token'' 401), s)"
  by (simp add: refreshAccessToken_def refreshAccessToken_catch_def)

lemma refreshAccessToken_success:
  "refreshAccessToken cfg now fr rt s = (Inr resp, s1) \<Longrightarrow>
     rotateTokens cfg now fr rt s = (Inr resp, s1)"
  by (auto simp: refreshAccessToken_def split: if_splits prod.splits sum.splits)

lemma rotated_not_valid:
  assumes "rotateTokens cfg now1 fr1 rt s = (Inr resp, s1)"
  shows "\<not> isRefreshTokenValid cfg now2 rt s1"
proof -
  from rotateTokens_success [OF assms] obtain d s0 where
       dec: "jwt_decode rt = Some d"
   and s1: "s1 = s0\<lparr>refresh_tokens_wa :=
                     map (\<lambda>t. if r_token_id t = p_tokenId d
                               then t\<lparr>r_is_revoked := True\<rparr> else t) (refresh_tokens_wa s0)\<rparr>"
    by blast
  have "\<not> refresh_usable now2 (p_tokenId d) s1"
    unfolding s1 by (rule revoked_not_usable)
  with dec show ?thesis by (rule unusable_not_valid)
qed

lemma filter_revoked_rows:
  "filter (\<lambda>t. r_token_id t = tid)
     (map (\<lambda>t. if r_user_id t = uid \<and> r_token_id t = tid then t\<lparr>r_is_revoked := True\<rparr> else t) ts)
   = map (\<lambda>t. if r_user_id t = uid then t\<lparr>r_is_revoked := True\<rparr> else t)
       (filter (\<lambda>t. r_token_id t = tid) ts)"
  by (induction ts) auto

lemma TokenService_logout_eq:
  "TokenService_logout uid tid s =
     (if (case filter (\<lambda>t. r_token_id t = tid) (refresh_tokens_wa s) of
            [] \<Rightarrow> False
          | t # ts \<Rightarrow> r_is_revoked t \<or> r_user_id t = uid)
      then (None,
            s\<lparr>user_sessions_wa :=
                filter (\<lambda>r. \<not> (s_user_id r = uid \<and> s_token_id r = tid)) (user_sessions_wa s),
              refresh_tokens_wa :=
                map (\<lambda>t. if r_user_id t = uid \<and> r_token_id t = tid
                          then t\<lparr>r_is_revoked := True\<rparr> else t) (refresh_tokens_wa s)\<rparr>)
      else (Some (Error ''Failed to revoke refresh token''), s))"
  by (cases "filter (\<lambda>t. r_token_id t = tid) (refresh_tokens_wa s)")
     (auto simp: TokenService_logout_def Let_def filter_revoked_rows)

subsection \<open>The limit check inside session creation\<close>

text \<open>
  C1. The claim: the limit check before session creation is read-only and never evicts the
  least recently active session. \<^verbatim>\<open>enforceSessionLimit\<close> does the opposite: whenever
  the user's session rows number at least \<^verbatim>\<open>MAX_SESSIONS_PER_USER\<close> (a limit of at
  least one), it removes a row from the session table, and \<^verbatim>\<open>createSession\<close> then
  inserts the new one without reporting anything.
\<close>

theorem enforceSessionLimit_deletes_at_limit:
  assumes "MAX_SESSIONS_PER_USER cfg \<le> int (length (filter (\<lambda>r. s_user_id r = uid) (user_sessions_wa s)))"
      and "1 \<le> MAX_SESSIONS_PER_USER cfg"
  shows "length (user_sessions_wa (enforceSessionLimit cfg uid s)) < length (user_sessions_wa s)"
proof -
  let ?mine = "filter (\<lambda>r. s_user_id r = uid) (user_sessions_wa s)"
  from assms have "?mine \<noteq> []" by auto
  then obtain victim where v: "oldest_session ?mine = Some victim"
    using oldest_session_nonempty by blast
  then have "victim \<in> set (user_sessions_wa s)"
    using oldest_session_mem by fastforce
  then have "length (filter (\<lambda>r. s_id r \<noteq> s_id victim) (user_sessions_wa s))
               < length (user_sessions_wa s)"
    by (intro length_filter_less[where x = victim]) auto
  with v assms(1) show ?thesis
    by (simp add: enforceSessionLimit_def Let_def)
qed

theorem enforceSessionLimit_deletes_at_limit_witness:
  "MAX_SESSIONS_PER_USER cfg3 \<le> int (length (filter (\<lambda>r. s_user_id r = 7) (user_sessions_wa db3)))
   \<and> 1 \<le> MAX_SESSIONS_PER_USER cfg3
   \<and> length (user_sessions_wa (enforceSessionLimit cfg3 7 db3)) < length (user_sessions_wa db3)
   \<and> user_sessions_wa (enforceSessionLimit cfg3 7 db3) =
       [mk_session ''s2'' 7 ''t2'' 2000, mk_session ''s3'' 7 ''t3'' 3000]
   \<and> map s_id (user_sessions_wa (snd (createSession cfg3 5000 fresh4 7 testDeviceInfo None db3))) =
       [''s2'', ''s3'', ''s4'']"
proof -
  have h1: "MAX_SESSIONS_PER_USER cfg3 \<le> int (length (filter (\<lambda>r. s_user_id r = 7) (user_sessions_wa db3)))"
    by code_simp
  have h2: "1 \<le> MAX_SESSIONS_PER_USER cfg3" by code_simp
  have e1: "user_sessions_wa (enforceSessionLimit cfg3 7 db3) =
       [mk_session ''s2'' 7 ''t2'' 2000, mk_session ''s3'' 7 ''t3'' 3000]" by code_simp
  have e2: "map s_id (user_sessions_wa (snd (createSession cfg3 5000 fresh4 7 testDeviceInfo None db3))) =
       [''s2'', ''s3'', ''s4'']" by code_simp
  from enforceSessionLimit_deletes_at_limit [OF h1 h2] h1 h2 e1 e2 show ?thesis by blast
qed

subsection \<open>Rotation\<close>

text \<open>
  C2. A refresh token value is rotated successfully at most once. Through the refresh
  entry point \<^verbatim>\<open>refreshAccessToken\<close>: after a successful rotation every later call with
  the same value, at any time and on the tables the first call left, fails with
  \<^verbatim>\<open>Invalid refresh token\<close>, returns no token pair and changes nothing; and a call
  whose token decodes to a token id with no stored row that is both unrevoked and
  unexpired (every stored row revoked or expired) fails the same way. After a successful
  \<^verbatim>\<open>rotateTokens\<close> a second \<^verbatim>\<open>rotateTokens\<close> with the same value fails as well and
  changes nothing.
\<close>

theorem refresh_token_rotated_at_most_once:
  "(refreshAccessToken cfg now1 fr1 rt s = (Inr resp, s1) \<longrightarrow>
      refreshAccessToken cfg now2 fr2 rt s1 = (Inl (AuthError ''Invalid refresh token'' 401), s1))
   \<and> (jwt_decode rt = Some d \<and> \<not> refresh_usable now3 (p_tokenId d) s3 \<longrightarrow>
      refreshAccessToken cfg now3 fr3 rt s3 = (Inl (AuthError ''Invalid refresh token'' 401), s3))
   \<and> (rotateTokens cfg now1 fr1 rt s = (Inr resp, s1) \<longrightarrow>
      isl (fst (rotateTokens cfg now2 fr2 rt s1))
      \<and> snd (rotateTokens cfg now2 fr2 rt s1) = s1
      \<and> refreshAccessToken cfg now2 fr2 rt s1 = (Inl (AuthError ''Invalid refresh token'' 401), s1))"
proof (intro conjI impI)
  assume "refreshAccessToken cfg now1 fr1 rt s = (Inr resp, s1)"
  then have "rotateTokens cfg now1 fr1 rt s = (Inr resp, s1)"
    by (rule refreshAccessToken_success)
  then have "\<not> isRefreshTokenValid cfg now2 rt s1" by (rule rotated_not_valid)
  then show "refreshAccessToken cfg now2 fr2 rt s1 = (Inl (AuthError ''Invalid refresh token'' 401), s1)"
    by (rule refreshAccessToken_invalid)
next
  assume "jwt_decode rt = Some d \<and> \<not> refresh_usable now3 (p_tokenId d) s3"
  then have "\<not> isRefreshTokenValid cfg now3 rt s3" using unusable_not_valid by blast
  then show "refreshAccessToken cfg now3 fr3 rt s3 = (Inl (AuthError ''Invalid refresh token'' 401), s3)"
    by (rule refreshAccessToken_invalid)
next
  assume ok: "rotateTokens cfg now1 fr1 rt s = (Inr resp, s1)"
  from rotateTokens_success [OF ok] obtain d s0 where
       dec: "jwt_decode rt = Some d"
   and s1: "s1 = s0\<lparr>refresh_tokens_wa :=
                     map (\<lambda>t. if r_token_id t = p_tokenId d
                               then t\<lparr>r_is_revoked := True\<rparr> else t) (refresh_tokens_wa s0)\<rparr>"
    by blast
  have nu: "\<not> refresh_usable now2 (p_tokenId d) s1"
    unfolding s1 by (rule revoked_not_usable)
  note r = rotateTokens_unusable [OF dec nu, of cfg fr2]
  show "isl (fst (rotateTokens cfg now2 fr2 rt s1))" by (simp add: r)
  show "snd (rotateTokens cfg now2 fr2 rt s1) = s1" by (simp add: r)
  from ok have "\<not> isRefreshTokenValid cfg now2 rt s1" by (rule rotated_not_valid)
  then show "refreshAccessToken cfg now2 fr2 rt s1 = (Inl (AuthError ''Invalid refresh token'' 401), s1)"
    by (rule refreshAccessToken_invalid)
qed

theorem refresh_token_rotated_at_most_once_witness:
  "fst (refreshAccessToken cfg3 5000 fresh4 refresh1 db1) =
      Inr \<lparr>t_token = Signed \<lparr>p_userId = 7, p_tokenId = ''t4''\<rparr> 5 3605 (JWT_SECRET cfg3),
           t_refreshToken = Signed \<lparr>p_userId = 7, p_tokenId = ''t4''\<rparr> 5 604805 (JWT_SECRET cfg3),
           t_sessionId = ''t4''\<rparr>
   \<and> refreshAccessToken cfg3 6000 fresh5 refresh1 (snd (refreshAccessToken cfg3 5000 fresh4 refresh1 db1)) =
       (Inl (AuthError ''Invalid refresh token'' 401), snd (refreshAccessToken cfg3 5000 fresh4 refresh1 db1))
   \<and> jwt_decode refresh1 = Some \<lparr>p_userId = 7, p_tokenId = ''t1''\<rparr>
   \<and> \<not> refresh_usable 700000000 ''t1'' db1
   \<and> refreshAccessToken cfg3 700000000 fresh4 refresh1 db1 =
       (Inl (AuthError ''Invalid refresh token'' 401), db1)
   \<and> fst (rotateTokens cfg3 5000 fresh4 refresh1 db1) = fst (refreshAccessToken cfg3 5000 fresh4 refresh1 db1)
   \<and> isl (fst (rotateTokens cfg3 6000 fresh5 refresh1 (snd (rotateTokens cfg3 5000 fresh4 refresh1 db1))))"
proof -
  let ?r = "\<lparr>t_token = Signed \<lparr>p_userId = 7, p_tokenId = ''t4''\<rparr> 5 3605 (JWT_SECRET cfg3),
           t_refreshToken = Signed \<lparr>p_userId = 7, p_tokenId = ''t4''\<rparr> 5 604805 (JWT_SECRET cfg3),
           t_sessionId = ''t4''\<rparr>"
  let ?s1 = "snd (refreshAccessToken cfg3 5000 fresh4 refresh1 db1)"
  let ?s1' = "snd (rotateTokens cfg3 5000 fresh4 refresh1 db1)"
  have f: "fst (refreshAccessToken cfg3 5000 fresh4 refresh1 db1) = Inr ?r" by code_simp
  then have ok: "refreshAccessToken cfg3 5000 fresh4 refresh1 db1 = (Inr ?r, ?s1)"
    by (simp add: prod_eq_iff)
  have f': "fst (rotateTokens cfg3 5000 fresh4 refresh1 db1) = Inr ?r" by code_simp
  then have ok': "rotateTokens cfg3 5000 fresh4 refresh1 db1 = (Inr ?r, ?s1')"
    by (simp add: prod_eq_iff)
  have dec: "jwt_decode refresh1 = Some \<lparr>p_userId = 7, p_tokenId = ''t1''\<rparr>" by code_simp
  have nu: "\<not> refresh_usable 700000000 ''t1'' db1" by code_simp
  note t = refresh_token_rotated_at_most_once [of cfg3 5000 fresh4 refresh1 db1 ?r ?s1 6000 fresh5
              "\<lparr>p_userId = 7, p_tokenId = ''t1''\<rparr>" 700000000 db1 fresh4]
  note t' = refresh_token_rotated_at_most_once [of cfg3 5000 fresh4 refresh1 db1 ?r ?s1' 6000 fresh5
              "\<lparr>p_userId = 7, p_tokenId = ''t1''\<rparr>" 700000000 db1 fresh4]
  from t ok have A: "refreshAccessToken cfg3 6000 fresh5 refresh1 ?s1 =
       (Inl (AuthError ''Invalid refresh token'' 401), ?s1)" by simp
  from t dec nu have B: "refreshAccessToken cfg3 700000000 fresh4 refresh1 db1 =
       (Inl (AuthError ''Invalid refresh token'' 401), db1)" by simp
  from t' ok' have C: "isl (fst (rotateTokens cfg3 6000 fresh5 refresh1 ?s1'))" by simp
  from f f' A B C dec nu show ?thesis by simp
qed

text \<open>
  C10 as stated fails: user 7 has three sessions, the configured maximum, and rotates the
  refresh token of the oldest one. The rotation succeeds, the session row of the old
  token id \<^verbatim>\<open>t1\<close> is gone, and the count of unmarked sessions is three as before.
\<close>

theorem rotate_at_limit_counterexample:
  "getActiveSessions 7 db3 = 3
   \<and> fst (rotateTokens cfg3 5000 fresh4 refresh1 db3) =
      Inr \<lparr>t_token = Signed \<lparr>p_userId = 7, p_tokenId = ''t4''\<rparr> 5 3605 (JWT_SECRET cfg3),
           t_refreshToken = Signed \<lparr>p_userId = 7, p_tokenId = ''t4''\<rparr> 5 604805 (JWT_SECRET cfg3),
           t_sessionId = ''t4''\<rparr>
   \<and> map s_token_id (user_sessions_wa (snd (rotateTokens cfg3 5000 fresh4 refresh1 db3))) =
       [''t2'', ''t3'', ''t4'']
   \<and> getActiveSessions 7 (snd (rotateTokens cfg3 5000 fresh4 refresh1 db3)) = 3"
  by code_simp

text \<open>
  C10 (amended). For every successful \<^verbatim>\<open>rotateTokens\<close> made while the user named in
  the token has fewer session rows than \<^verbatim>\<open>MAX_SESSIONS_PER_USER\<close>: the session table
  is the old one with one new row appended, for that user, unmarked, with the newly
  generated token id that the call returns. So every existing row is exactly as it was,
  none deleted and none newly marked: a session row with the old token id is still there,
  the rows of the old token id that were marked are the same as before, and if one was
  unmarked before, one is unmarked after. The user's count of unmarked sessions grows by
  one, and no row of the old token id in the refresh-token table is left unrevoked.
\<close>

theorem rotate_below_limit_adds_session:
  assumes "rotateTokens cfg now fr rt s = (Inr resp, s1)"
      and "jwt_decode rt = Some d"
      and "int (length (filter (\<lambda>r. s_user_id r = p_userId d) (user_sessions_wa s)))
             < MAX_SESSIONS_PER_USER cfg"
  shows "user_sessions_wa s1 = user_sessions_wa s @ [last (user_sessions_wa s1)]
       \<and> s_user_id (last (user_sessions_wa s1)) = p_userId d
       \<and> s_token_id (last (user_sessions_wa s1)) = t_sessionId resp
       \<and> t_sessionId resp = new_token_id fr
       \<and> \<not> s_is_marked_for_deletion (last (user_sessions_wa s1))
       \<and> getActiveSessions (p_userId d) s1 = getActiveSessions (p_userId d) s + 1
       \<and> list_ex (\<lambda>r. s_token_id r = p_tokenId d) (user_sessions_wa s1)
       \<and> filter (\<lambda>t. r_token_id t = p_tokenId d \<and> \<not> r_is_revoked t) (refresh_tokens_wa s1) = []
       \<and> (list_ex (\<lambda>r. s_token_id r = p_tokenId d \<and> \<not> s_is_marked_for_deletion r)
             (user_sessions_wa s) \<longrightarrow>
           list_ex (\<lambda>r. s_token_id r = p_tokenId d \<and> \<not> s_is_marked_for_deletion r)
             (user_sessions_wa s1))
       \<and> filter (\<lambda>r. s_token_id r = p_tokenId d \<and> s_is_marked_for_deletion r) (user_sessions_wa s1)
           = filter (\<lambda>r. s_token_id r = p_tokenId d \<and> s_is_marked_for_deletion r) (user_sessions_wa s)"
proof -
  from rotateTokens_success [OF assms(1)] assms(2) obtain row rows s0 where
        f: "filter (\<lambda>r. s_token_id r = p_tokenId d) (user_sessions_wa s) = row # rows"
    and g: "generateTokens cfg now fr (p_userId d)
                          \<lparr>d_type = s_device_type row, d_name = s_device_name row,
                           d_browser = s_browser row, d_os = s_os row, d_ip = s_last_ip row\<rparr> s
                          = (resp, s0)"
    and s1: "s1 = s0\<lparr>refresh_tokens_wa :=
                               map (\<lambda>t. if r_token_id t = p_tokenId d
                                         then t\<lparr>r_is_revoked := True\<rparr> else t)
                                 (refresh_tokens_wa s0)\<rparr>"
    by auto
  note gr = generateTokens_result [OF g]
  have e: "enforceSessionLimit cfg (p_userId d) s = s"
    using assms(3) by (rule enforceSessionLimit_below)
  let ?row = "\<lparr>s_id = new_session_id fr, s_user_id = p_userId d, s_token_id = new_token_id fr,
                 s_device_type = s_device_type row, s_device_name = s_device_name row,
                 s_browser = s_browser row, s_os = s_os row,
                 s_last_active = now, s_created_at = now,
                 s_is_marked_for_deletion = False, s_marked_at = None,
                 s_activity_count = 0, s_last_ip = s_last_ip row\<rparr>"
  have ss: "user_sessions_wa s1 = user_sessions_wa s @ [?row]"
    by (simp add: s1 gr(4) e)
  have l: "last (user_sessions_wa s1) = ?row" by (simp add: ss)
  have old: "list_ex (\<lambda>r. s_token_id r = p_tokenId d) (user_sessions_wa s1)"
  proof -
    have "row \<in> set (filter (\<lambda>r. s_token_id r = p_tokenId d) (user_sessions_wa s))"
      by (simp add: f)
    then have "row \<in> set (user_sessions_wa s1) \<and> s_token_id row = p_tokenId d"
      by (simp add: ss)
    then show ?thesis by (auto simp: list_ex_iff)
  qed
  have rev: "filter (\<lambda>t. r_token_id t = p_tokenId d \<and> \<not> r_is_revoked t) (refresh_tokens_wa s1) = []"
    by (auto simp: s1 filter_empty_conv)
  have cnt: "getActiveSessions (p_userId d) s1 = getActiveSessions (p_userId d) s + 1"
    by (simp add: getActiveSessions_def ss)
  have live: "list_ex (\<lambda>r. s_token_id r = p_tokenId d \<and> \<not> s_is_marked_for_deletion r)
             (user_sessions_wa s) \<longrightarrow>
           list_ex (\<lambda>r. s_token_id r = p_tokenId d \<and> \<not> s_is_marked_for_deletion r)
             (user_sessions_wa s1)"
    by (simp add: ss)
  have marked: "filter (\<lambda>r. s_token_id r = p_tokenId d \<and> s_is_marked_for_deletion r) (user_sessions_wa s1)
           = filter (\<lambda>r. s_token_id r = p_tokenId d \<and> s_is_marked_for_deletion r) (user_sessions_wa s)"
    by (simp add: ss)
  show ?thesis
    unfolding l using ss old rev cnt gr(1) live marked by simp
qed

theorem rotate_below_limit_adds_session_witness:
  "fst (rotateTokens cfg3 5000 fresh4 refresh1 db1) =
      Inr \<lparr>t_token = Signed \<lparr>p_userId = 7, p_tokenId = ''t4''\<rparr> 5 3605 (JWT_SECRET cfg3),
           t_refreshToken = Signed \<lparr>p_userId = 7, p_tokenId = ''t4''\<rparr> 5 604805 (JWT_SECRET cfg3),
           t_sessionId = ''t4''\<rparr>
   \<and> jwt_decode refresh1 = Some \<lparr>p_userId = 7, p_tokenId = ''t1''\<rparr>
   \<and> int (length (filter (\<lambda>r. s_user_id r = 7) (user_sessions_wa db1))) < MAX_SESSIONS_PER_USER cfg3
   \<and> map s_token_id (user_sessions_wa (snd (rotateTokens cfg3 5000 fresh4 refresh1 db1))) = [''t1'', ''t4'']
   \<and> map s_is_marked_for_deletion (user_sessions_wa (snd (rotateTokens cfg3 5000 fresh4 refresh1 db1)))
        = [False, False]
   \<and> getActiveSessions 7 (snd (rotateTokens cfg3 5000 fresh4 refresh1 db1)) = getActiveSessions 7 db1 + 1
   \<and> map r_is_revoked (refresh_tokens_wa (snd (rotateTokens cfg3 5000 fresh4 refresh1 db1))) = [True, False]
   \<and> list_ex (\<lambda>r. s_token_id r = ''t1'' \<and> \<not> s_is_marked_for_deletion r) (user_sessions_wa db1)
   \<and> list_ex (\<lambda>r. s_token_id r = ''t1'' \<and> \<not> s_is_marked_for_deletion r)
        (user_sessions_wa (snd (rotateTokens cfg3 5000 fresh4 refresh1 db1)))
   \<and> map s_is_marked_for_deletion
        (user_sessions_wa (snd (rotateTokens cfg3 5000 fresh4 refresh1 db1_marked))) = [True, False]"
proof -
  let ?r = "\<lparr>t_token = Signed \<lparr>p_userId = 7, p_tokenId = ''t4''\<rparr> 5 3605 (JWT_SECRET cfg3),
           t_refreshToken = Signed \<lparr>p_userId = 7, p_tokenId = ''t4''\<rparr> 5 604805 (JWT_SECRET cfg3),
           t_sessionId = ''t4''\<rparr>"
  let ?s1 = "snd (rotateTokens cfg3 5000 fresh4 refresh1 db1)"
  have f: "fst (rotateTokens cfg3 5000 fresh4 refresh1 db1) = Inr ?r" by code_simp
  then have h1: "rotateTokens cfg3 5000 fresh4 refresh1 db1 = (Inr ?r, ?s1)"
    by (simp add: prod_eq_iff)
  have h2: "jwt_decode refresh1 = Some \<lparr>p_userId = 7, p_tokenId = ''t1''\<rparr>" by code_simp
  have h3: "int (length (filter (\<lambda>r. s_user_id r = p_userId \<lparr>p_userId = 7, p_tokenId = ''t1''\<rparr>)
                (user_sessions_wa db1))) < MAX_SESSIONS_PER_USER cfg3" by code_simp
  have h3': "int (length (filter (\<lambda>r. s_user_id r = 7) (user_sessions_wa db1))) < MAX_SESSIONS_PER_USER cfg3"
    by code_simp
  have h4: "list_ex (\<lambda>r. s_token_id r = ''t1'' \<and> \<not> s_is_marked_for_deletion r) (user_sessions_wa db1)"
    by code_simp
  have e1: "map s_token_id (user_sessions_wa ?s1) = [''t1'', ''t4'']" by code_simp
  have e2: "map r_is_revoked (refresh_tokens_wa ?s1) = [True, False]" by code_simp
  have e3: "map s_is_marked_for_deletion (user_sessions_wa ?s1) = [False, False]" by code_simp
  have e4: "map s_is_marked_for_deletion
        (user_sessions_wa (snd (rotateTokens cfg3 5000 fresh4 refresh1 db1_marked))) = [True, False]"
    by code_simp
  note t = rotate_below_limit_adds_session [OF h1 h2 h3]
  from t have A: "getActiveSessions 7 ?s1 = getActiveSessions 7 db1 + 1" by simp
  from t h4 have B: "list_ex (\<lambda>r. s_token_id r = ''t1'' \<and> \<not> s_is_marked_for_deletion r)
        (user_sessions_wa ?s1)" by simp
  from f h2 h3' h4 e1 e2 e3 e4 A B show ?thesis by simp
qed

subsection \<open>Login at the limit\<close>

text \<open>
  C3. The claim: a login at the limit returns \<^verbatim>\<open>MaxSessionsReached\<close> with exactly the
  user's current sessions and creates no row. For a user with valid credentials (found,
  active, password accepted) whose unmarked sessions number at least
  \<^verbatim>\<open>MAX_SESSIONS_PER_USER\<close>, \<^verbatim>\<open>AuthService.login\<close> does fail with
  \<^verbatim>\<open>MaxSessionsError\<close> and leaves every table as it was, but the list the error
  carries is empty; \<^verbatim>\<open>authenticateUser\<close> catches its own error and returns a failed
  result with the message \<^verbatim>\<open>Maximum number of sessions reached\<close> and no list at all.
\<close>

theorem login_at_limit_reports_empty_list:
  assumes "findByUsername cr username s = Some user"
      and "u_is_active user"
      and "verifyPassword cr user password"
      and "MAX_SESSIONS_PER_USER cfg \<le> getActiveSessions (u_id user) s"
  shows "AuthService_login cr cfg now fr username password deviceInfo s =
           (Inl (MaxSessionsError [] (u_id user)), s)
       \<and> authenticateUser cr cfg now fr username password deviceInfo s =
           (\<lparr>a_success = False, a_token = None, a_refreshToken = None, a_user = None,
             a_message = None, a_error = Some ''Maximum number of sessions reached''\<rparr>, s)"
  using assms by (simp add: AuthService_login_def authenticateUser_def Let_def)

theorem login_at_limit_reports_empty_list_witness:
  "findByUsername plain ''alice'' db3 = Some alice
   \<and> u_is_active alice
   \<and> verifyPassword plain alice ''testpass''
   \<and> MAX_SESSIONS_PER_USER cfg3 \<le> getActiveSessions (u_id alice) db3
   \<and> AuthService_login plain cfg3 5000 fresh4 ''alice'' ''testpass'' testDeviceInfo db3 =
        (Inl (MaxSessionsError [] 7), db3)
   \<and> authenticateUser plain cfg3 5000 fresh4 ''alice'' ''testpass'' testDeviceInfo db3 =
           (\<lparr>a_success = False, a_token = None, a_refreshToken = None, a_user = None,
             a_message = None, a_error = Some ''Maximum number of sessions reached''\<rparr>, db3)
   \<and> map s_id (getUserSessions 7 db3) = [''s3'', ''s2'', ''s1'']"
proof -
  have g: "map s_id (getUserSessions 7 db3) = [''s3'', ''s2'', ''s1'']" by code_simp
  have h1: "findByUsername plain ''alice'' db3 = Some alice" by code_simp
  have h2: "u_is_active alice" by code_simp
  have h3: "verifyPassword plain alice ''testpass''" by code_simp
  have h4: "MAX_SESSIONS_PER_USER cfg3 \<le> getActiveSessions (u_id alice) db3" by code_simp
  have u: "u_id alice = 7" by code_simp
  from login_at_limit_reports_empty_list [OF h1 h2 h3 h4, of 5000 fresh4 testDeviceInfo]
  show ?thesis using h1 h2 h3 h4 u g by simp
qed

subsection \<open>Verification\<close>

lemma filter_marked_rows:
  "filter (\<lambda>r. s_token_id r \<noteq> tid)
     (map (\<lambda>r. if s_token_id r = tid
               then r\<lparr>s_is_marked_for_deletion := True, s_marked_at := Some now\<rparr> else r) rs)
   = filter (\<lambda>r. s_token_id r \<noteq> tid) rs"
  by (induction rs) auto

text \<open>
  \<^verbatim>\<open>handleExpiredToken\<close> revokes every token row of the token id before it asks
  whether one is still usable, so it always deletes the session rows it has just marked.
\<close>

lemma handleExpiredToken_deletes:
  "user_sessions_wa (handleExpiredToken now tid s) =
     filter (\<lambda>r. s_token_id r \<noteq> tid) (user_sessions_wa s)"
proof -
  have "\<not> refresh_usable now tid
          (s\<lparr>user_sessions_wa :=
                map (\<lambda>r. if s_token_id r = tid
                          then r\<lparr>s_is_marked_for_deletion := True, s_marked_at := Some now\<rparr>
                          else r) (user_sessions_wa s),
              refresh_tokens_wa :=
                map (\<lambda>t. if r_token_id t = tid then t\<lparr>r_is_revoked := True\<rparr> else t)
                  (refresh_tokens_wa s)\<rparr>)"
    by (rule revoked_not_usable)
  then show ?thesis
    by (simp add: handleExpiredToken_def Let_def filter_marked_rows)
qed

text \<open>
  C4. The claim: a correctly signed access token whose expiry has passed makes verify fail
  with \<^verbatim>\<open>Token expired\<close> and marks the session for deletion. In the code the
  \<^verbatim>\<open>catch\<close> of \<^verbatim>\<open>verifyToken\<close> tests \<^verbatim>\<open>JsonWebTokenError\<close> first, which an expired
  token's error also is, so the error is \<^verbatim>\<open>Invalid token\<close>; the middleware then sees an
  \<^verbatim>\<open>AuthError\<close>, never calls \<^verbatim>\<open>handleExpiredToken\<close>, and answers
  \<^verbatim>\<open>Invalid token\<close> with every table unchanged.
\<close>

theorem expired_token_reported_invalid:
  assumes "ex \<le> now div 1000"
  shows "verifyToken cfg now updateFails (Signed payload iat ex (JWT_SECRET cfg)) s =
           (Inl (AuthError ''Invalid token'' 401), s)
       \<and> authenticateToken cfg now updateFails (Some (Signed payload iat ex (JWT_SECRET cfg))) s =
           (Respond 401 ''Invalid token'', s)"
proof -
  have v: "verifyToken cfg now updateFails (Signed payload iat ex (JWT_SECRET cfg)) s =
           (Inl (AuthError ''Invalid token'' 401), s)"
    using assms by (simp add: verifyToken_def verifyToken_catch_def)
  then show ?thesis by (simp add: authenticateToken_def)
qed

theorem expired_token_reported_invalid_witness:
  "access1 = Signed \<lparr>p_userId = 7, p_tokenId = ''t1''\<rparr> 1 3601 (JWT_SECRET cfg3)
   \<and> (3601::int) \<le> 3601000 div 1000
   \<and> verifyToken cfg3 3601000 False access1 db3 = (Inl (AuthError ''Invalid token'' 401), db3)
   \<and> authenticateToken cfg3 3601000 False (Some access1) db3 = (Respond 401 ''Invalid token'', db3)
   \<and> map s_is_marked_for_deletion (user_sessions_wa db3) = [False, False, False]"
proof -
  have a: "access1 = Signed \<lparr>p_userId = 7, p_tokenId = ''t1''\<rparr> 1 3601 (JWT_SECRET cfg3)"
    by (simp add: example_defs)
  have h: "(3601::int) \<le> 3601000 div 1000" by simp
  have m: "map s_is_marked_for_deletion (user_sessions_wa db3) = [False, False, False]"
    by (simp add: example_defs)
  from expired_token_reported_invalid [OF h, of cfg3 False "\<lparr>p_userId = 7, p_tokenId = ''t1''\<rparr>" 1 db3]
  show ?thesis using a h m by simp
qed

text \<open>
  C6. Round trip: verifying the access token that \<^verbatim>\<open>generateTokens\<close> has just returned,
  on the tables it left and before the token's expiry, succeeds with the user id given to
  \<^verbatim>\<open>generateTokens\<close> and the token id of the session row it created (the returned
  \<^verbatim>\<open>sessionId\<close>), whether or not the activity update fails.
\<close>

theorem issue_then_verify_roundtrip:
  assumes "generateTokens cfg now fr uid deviceInfo s = (resp, s1)"
      and "now2 div 1000 < now div 1000 + TOKEN_EXPIRATION cfg div 1000"
  shows "fst (verifyToken cfg now2 updateFails (t_token resp) s1) =
           Inr \<lparr>p_userId = uid, p_tokenId = t_sessionId resp\<rparr>
       \<and> list_ex (\<lambda>r. s_user_id r = uid \<and> s_token_id r = t_sessionId resp) (user_sessions_wa s1)"
proof -
  note g = generateTokens_result [OF assms(1)]
  have v: "jwt_verify (t_token resp) (JWT_SECRET cfg) now2 =
             Inr \<lparr>p_userId = uid, p_tokenId = new_token_id fr\<rparr>"
    using assms(2) by (simp add: g(2))
  have ex: "filter (\<lambda>r. s_token_id r = new_token_id fr \<and> s_user_id r = uid) (user_sessions_wa s1) \<noteq> []"
    by (simp add: g(4))
  have "fst (verifyToken cfg now2 updateFails (t_token resp) s1) =
           Inr \<lparr>p_userId = uid, p_tokenId = new_token_id fr\<rparr>"
    using ex by (simp add: verifyToken_def v split: list.splits)
  moreover have "list_ex (\<lambda>r. s_user_id r = uid \<and> s_token_id r = new_token_id fr) (user_sessions_wa s1)"
    by (simp add: g(4))
  ultimately show ?thesis by (simp add: g(1))
qed

theorem issue_then_verify_roundtrip_witness:
  "(6000::int) div 1000 < 5000 div 1000 + TOKEN_EXPIRATION cfg3 div 1000
   \<and> fst (verifyToken cfg3 6000 False
            (t_token (fst (generateTokens cfg3 5000 fresh4 7 testDeviceInfo db1)))
            (snd (generateTokens cfg3 5000 fresh4 7 testDeviceInfo db1))) =
        Inr \<lparr>p_userId = 7, p_tokenId = ''t4''\<rparr>
   \<and> t_sessionId (fst (generateTokens cfg3 5000 fresh4 7 testDeviceInfo db1)) = ''t4''"
proof -
  have h1: "generateTokens cfg3 5000 fresh4 7 testDeviceInfo db1 =
              (fst (generateTokens cfg3 5000 fresh4 7 testDeviceInfo db1),
               snd (generateTokens cfg3 5000 fresh4 7 testDeviceInfo db1))" by simp
  have h2: "(6000::int) div 1000 < 5000 div 1000 + TOKEN_EXPIRATION cfg3 div 1000"
    by (simp add: cfg3_def)
  have sid: "t_sessionId (fst (generateTokens cfg3 5000 fresh4 7 testDeviceInfo db1)) = ''t4''"
    by code_simp
  from issue_then_verify_roundtrip [OF h1 h2, of False] h2 sid show ?thesis by simp
qed

text \<open>
  C9. The claim: every successful verify sets \<^verbatim>\<open>lastActive\<close> to the current time and
  adds one to \<^verbatim>\<open>activityCount\<close>, and a failure of that update never fails the verify.
  In the code a successful verify sets \<^verbatim>\<open>last_active\<close> of each session row with the
  token's id to the current time and changes nothing else in the session table: the
  \<^verbatim>\<open>activity_count\<close> of every row is what it was. When the activity update fails,
  verify returns the same payload and the tables are untouched.
\<close>

theorem verifyToken_success_bumps_last_active_only:
  assumes "verifyToken cfg now False token s = (Inr decoded, s1)"
  shows "user_sessions_wa s1 =
           map (\<lambda>r. if s_token_id r = p_tokenId decoded then r\<lparr>s_last_active := now\<rparr> else r)
             (user_sessions_wa s)
       \<and> map s_activity_count (user_sessions_wa s1) = map s_activity_count (user_sessions_wa s)
       \<and> verifyToken cfg now True token s = (Inr decoded, s)"
proof -
  from assms obtain row rows where
        v: "jwt_verify token (JWT_SECRET cfg) now = Inr decoded"
    and f: "filter (\<lambda>r. s_token_id r = p_tokenId decoded \<and> s_user_id r = p_userId decoded)
                  (user_sessions_wa s) = row # rows"
    and s1: "s1 = updateSessionActivity now False (p_tokenId decoded) s"
    by (auto simp: verifyToken_def split: sum.splits list.splits)
  have a: "user_sessions_wa s1 =
           map (\<lambda>r. if s_token_id r = p_tokenId decoded then r\<lparr>s_last_active := now\<rparr> else r)
             (user_sessions_wa s)"
    by (simp add: s1 updateSessionActivity_def)
  have b: "map s_activity_count (user_sessions_wa s1) = map s_activity_count (user_sessions_wa s)"
    unfolding a by (induction "user_sessions_wa s") auto
  have c: "verifyToken cfg now True token s = (Inr decoded, s)"
    by (simp add: verifyToken_def v f updateSessionActivity_def)
  from a b c show ?thesis by blast
qed

theorem verifyToken_success_bumps_last_active_only_witness:
  "fst (verifyToken cfg3 5000 False access1 db1) = Inr \<lparr>p_userId = 7, p_tokenId = ''t1''\<rparr>
   \<and> user_sessions_wa (snd (verifyToken cfg3 5000 False access1 db1)) =
        [(mk_session ''s1'' 7 ''t1'' 1000)\<lparr>s_last_active := 5000\<rparr>]
   \<and> map s_activity_count (user_sessions_wa db1) = [0]
   \<and> map s_activity_count (user_sessions_wa (snd (verifyToken cfg3 5000 False access1 db1))) = [0]
   \<and> verifyToken cfg3 5000 True access1 db1 = (Inr \<lparr>p_userId = 7, p_tokenId = ''t1''\<rparr>, db1)"
proof -
  have h: "verifyToken cfg3 5000 False access1 db1 =
             (Inr \<lparr>p_userId = 7, p_tokenId = ''t1''\<rparr>, snd (verifyToken cfg3 5000 False access1 db1))"
    by code_simp
  have e: "map (\<lambda>r. if s_token_id r = p_tokenId \<lparr>p_userId = 7, p_tokenId = ''t1''\<rparr>
                     then r\<lparr>s_last_active := 5000\<rparr> else r) (user_sessions_wa db1)
           = [(mk_session ''s1'' 7 ''t1'' 1000)\<lparr>s_last_active := 5000\<rparr>]"
    by code_simp
  have f: "fst (verifyToken cfg3 5000 False access1 db1) = Inr \<lparr>p_userId = 7, p_tokenId = ''t1''\<rparr>"
    by code_simp
  have a: "map s_activity_count (user_sessions_wa db1) = [0]" by code_simp
  note t = verifyToken_success_bumps_last_active_only [OF h]
  from t e have A: "user_sessions_wa (snd (verifyToken cfg3 5000 False access1 db1)) =
        [(mk_session ''s1'' 7 ''t1'' 1000)\<lparr>s_last_active := 5000\<rparr>]" by simp
  from t [THEN conjunct2, THEN conjunct1] a
  have B: "map s_activity_count (user_sessions_wa (snd (verifyToken cfg3 5000 False access1 db1))) = [0]"
    by (simp only:)
  from t have C: "verifyToken cfg3 5000 True access1 db1 = (Inr \<lparr>p_userId = 7, p_tokenId = ''t1''\<rparr>, db1)"
    by blast
  from f A a B C show ?thesis by blast
qed

subsection \<open>Logout\<close>


text \<open>
  C7. The claim: logout soft-deletes the session row and revokes its token in one unit,
  and a failed double check raises an alert without failing the logout. For a user id and
  a token id that are present, \<^verbatim>\<open>TokenService.logout\<close> commits exactly when the first
  refresh-token row of the token id exists and is revoked already or belongs to the user.
  It has then deleted the session rows of that user and token id, not marked them, and
  set \<^verbatim>\<open>is_revoked\<close> on the user's token rows of that token id; the handler answers
  200 and logs \<^verbatim>\<open>Cleanup verification failed\<close> when another user's session row
  carries the token id. Otherwise the unit is rolled back, the tables are as before, and
  the handler answers 500.
\<close>

theorem logout_deletes_row_and_reads_back:
  assumes "uid \<noteq> 0" and "tid \<noteq> []"
  shows "TokenService_logout uid tid s =
     (if (case filter (\<lambda>t. r_token_id t = tid) (refresh_tokens_wa s) of
            [] \<Rightarrow> False
          | t # ts \<Rightarrow> r_is_revoked t \<or> r_user_id t = uid)
      then (None,
            s\<lparr>user_sessions_wa :=
                filter (\<lambda>r. \<not> (s_user_id r = uid \<and> s_token_id r = tid)) (user_sessions_wa s),
              refresh_tokens_wa :=
                map (\<lambda>t. if r_user_id t = uid \<and> r_token_id t = tid
                          then t\<lparr>r_is_revoked := True\<rparr> else t) (refresh_tokens_wa s)\<rparr>)
      else (Some (Error ''Failed to revoke refresh token''), s))
   \<and> handleLogout cfg now (Some \<lparr>p_userId = uid, p_tokenId = tid\<rparr>) s =
     (if (case filter (\<lambda>t. r_token_id t = tid) (refresh_tokens_wa s) of
            [] \<Rightarrow> False
          | t # ts \<Rightarrow> r_is_revoked t \<or> r_user_id t = uid)
      then ((200, ''Logged out successfully''),
            (if list_ex (\<lambda>r. s_token_id r = tid \<and> s_user_id r \<noteq> uid) (user_sessions_wa s)
             then [''Cleanup verification failed''] else []),
            s\<lparr>user_sessions_wa :=
                filter (\<lambda>r. \<not> (s_user_id r = uid \<and> s_token_id r = tid)) (user_sessions_wa s),
              refresh_tokens_wa :=
                map (\<lambda>t. if r_user_id t = uid \<and> r_token_id t = tid
                          then t\<lparr>r_is_revoked := True\<rparr> else t) (refresh_tokens_wa s)\<rparr>)
      else ((500, ''Failed to logout''), [''Logout failed'', ''Logout handler error''], s))"
proof -
  define C where "C = (case filter (\<lambda>t. r_token_id t = tid) (refresh_tokens_wa s) of
            [] \<Rightarrow> False
          | t # ts \<Rightarrow> r_is_revoked t \<or> r_user_id t = uid)"
  define s' where "s' = s\<lparr>user_sessions_wa :=
                filter (\<lambda>r. \<not> (s_user_id r = uid \<and> s_token_id r = tid)) (user_sessions_wa s),
              refresh_tokens_wa :=
                map (\<lambda>t. if r_user_id t = uid \<and> r_token_id t = tid
                          then t\<lparr>r_is_revoked := True\<rparr> else t) (refresh_tokens_wa s)\<rparr>"
  have L: "TokenService_logout uid tid s =
             (if C then (None, s') else (Some (Error ''Failed to revoke refresh token''), s))"
    unfolding C_def s'_def by (rule TokenService_logout_eq)
  have v: "isSessionValid tid s'
           = list_ex (\<lambda>r. s_token_id r = tid \<and> s_user_id r \<noteq> uid) (user_sessions_wa s)"
    unfolding s'_def by (auto simp: isSessionValid_def list_ex_iff)
  have H: "handleLogout cfg now (Some \<lparr>p_userId = uid, p_tokenId = tid\<rparr>) s =
     (if C
      then ((200, ''Logged out successfully''),
            (if list_ex (\<lambda>r. s_token_id r = tid \<and> s_user_id r \<noteq> uid) (user_sessions_wa s)
             then [''Cleanup verification failed''] else []), s')
      else ((500, ''Failed to logout''), [''Logout failed'', ''Logout handler error''], s))"
    using assms by (cases C) (simp_all add: handleLogout_def L Let_def v)
  from L H show ?thesis unfolding C_def s'_def by blast
qed

theorem logout_deletes_row_and_reads_back_witness:
  "(7::int) \<noteq> 0 \<and> ''t2'' \<noteq> []
   \<and> fst (TokenService_logout 7 ''t2'' db3) = None
   \<and> map s_id (user_sessions_wa db3) = [''s1'', ''s2'', ''s3'']
   \<and> map s_id (user_sessions_wa (snd (TokenService_logout 7 ''t2'' db3))) = [''s1'', ''s3'']
   \<and> map r_is_revoked (refresh_tokens_wa (snd (TokenService_logout 7 ''t2'' db3))) = [False, True, False]
   \<and> fst (handleLogout cfg3 5000 (Some \<lparr>p_userId = 7, p_tokenId = ''t2''\<rparr>) db3) =
        (200, ''Logged out successfully'')
   \<and> fst (snd (handleLogout cfg3 5000 (Some \<lparr>p_userId = 7, p_tokenId = ''t1''\<rparr>) db_shared)) =
        [''Cleanup verification failed'']
   \<and> fst (handleLogout cfg3 5000 (Some \<lparr>p_userId = 7, p_tokenId = ''t1''\<rparr>) db_shared) =
        (200, ''Logged out successfully'')
   \<and> TokenService_logout 7 ''t1'' db_no_token =
        (Some (Error ''Failed to revoke refresh token''), db_no_token)
   \<and> handleLogout cfg3 5000 (Some \<lparr>p_userId = 7, p_tokenId = ''t1''\<rparr>) db_no_token =
        ((500, ''Failed to logout''), [''Logout failed'', ''Logout handler error''], db_no_token)"
proof -
  have h1: "(7::int) \<noteq> 0" by simp
  have h2: "''t2'' \<noteq> []" by simp
  have h3: "''t1'' \<noteq> []" by simp
  have c3: "(case filter (\<lambda>t. r_token_id t = ''t2'') (refresh_tokens_wa db3) of
            [] \<Rightarrow> False | t # ts \<Rightarrow> r_is_revoked t \<or> r_user_id t = 7)" by code_simp
  have cs: "(case filter (\<lambda>t. r_token_id t = ''t1'') (refresh_tokens_wa db_shared) of
            [] \<Rightarrow> False | t # ts \<Rightarrow> r_is_revoked t \<or> r_user_id t = 7)" by code_simp
  have cn: "\<not> (case filter (\<lambda>t. r_token_id t = ''t1'') (refresh_tokens_wa db_no_token) of
            [] \<Rightarrow> False | t # ts \<Rightarrow> r_is_revoked t \<or> r_user_id t = 7)" by code_simp
  have ls: "list_ex (\<lambda>r. s_token_id r = ''t1'' \<and> s_user_id r \<noteq> 7) (user_sessions_wa db_shared)"
    by code_simp
  have e0: "map s_id (user_sessions_wa db3) = [''s1'', ''s2'', ''s3'']" by code_simp
  have e1: "map s_id (filter (\<lambda>r. \<not> (s_user_id r = 7 \<and> s_token_id r = ''t2'')) (user_sessions_wa db3))
              = [''s1'', ''s3'']" by code_simp
  have e2: "map r_is_revoked (map (\<lambda>t. if r_user_id t = 7 \<and> r_token_id t = ''t2''
                          then t\<lparr>r_is_revoked := True\<rparr> else t) (refresh_tokens_wa db3))
              = [False, True, False]" by code_simp
  note a = logout_deletes_row_and_reads_back [OF h1 h2, of db3 cfg3 5000]
  note b = logout_deletes_row_and_reads_back [OF h1 h3, of db_shared cfg3 5000]
  note c = logout_deletes_row_and_reads_back [OF h1 h3, of db_no_token cfg3 5000]
  from a c3 have A1: "fst (TokenService_logout 7 ''t2'' db3) = None"
    and A2: "map s_id (user_sessions_wa (snd (TokenService_logout 7 ''t2'' db3))) = [''s1'', ''s3'']"
    and A3: "map r_is_revoked (refresh_tokens_wa (snd (TokenService_logout 7 ''t2'' db3))) = [False, True, False]"
    and A4: "fst (handleLogout cfg3 5000 (Some \<lparr>p_userId = 7, p_tokenId = ''t2''\<rparr>) db3) =
        (200, ''Logged out successfully'')"
    using e1 e2 by simp_all
  from b cs ls have B1: "fst (snd (handleLogout cfg3 5000 (Some \<lparr>p_userId = 7, p_tokenId = ''t1''\<rparr>) db_shared)) =
        [''Cleanup verification failed'']"
    and B2: "fst (handleLogout cfg3 5000 (Some \<lparr>p_userId = 7, p_tokenId = ''t1''\<rparr>) db_shared) =
        (200, ''Logged out successfully'')" by simp_all
  from c cn have C1: "TokenService_logout 7 ''t1'' db_no_token =
        (Some (Error ''Failed to revoke refresh token''), db_no_token)"
    and C2: "handleLogout cfg3 5000 (Some \<lparr>p_userId = 7, p_tokenId = ''t1''\<rparr>) db_no_token =
        ((500, ''Failed to logout''), [''Logout failed'', ''Logout handler error''], db_no_token)"
    by simp_all
  from A1 A2 A3 A4 B1 B2 C1 C2 e0 show ?thesis by simp
qed

lemma marked_rows_keep_ids:
  "map s_id (map (\<lambda>r. if P r then r\<lparr>s_is_marked_for_deletion := True, s_marked_at := Some now\<rparr>
                          else r) rs) = map s_id rs"
  by (induction rs) auto

lemma marked_rows_are_marked:
  "list_all s_is_marked_for_deletion
     (filter (\<lambda>r. s_id r = sid \<and> s_user_id r = uid)
        (map (\<lambda>r. if s_id r = sid \<and> s_user_id r = uid
                  then r\<lparr>s_is_marked_for_deletion := True, s_marked_at := Some now\<rparr>
                  else r) rs))"
  by (induction rs) auto

lemma marked_rows_stay:
  "length (filter (\<lambda>r. s_id r = sid \<and> s_user_id r = uid)
        (map (\<lambda>r. if s_id r = sid \<and> s_user_id r = uid
                  then r\<lparr>s_is_marked_for_deletion := True, s_marked_at := Some now\<rparr>
                  else r) rs))
   = length (filter (\<lambda>r. s_id r = sid \<and> s_user_id r = uid) rs)"
  by (induction rs) auto

text \<open>
  The sibling \<^verbatim>\<open>AuthService.logout\<close> keeps every session row and marks the ones it
  was asked to end: a successful call leaves the rows' identifiers as they were, at least
  one row of the given session id and owner, and all of those marked for deletion.
\<close>

lemma AuthService_logout_marks:
  assumes "AuthService_logout now sid uid s = (Inr ok, s1)"
  shows "map s_id (user_sessions_wa s1) = map s_id (user_sessions_wa s)
       \<and> list_all s_is_marked_for_deletion
           (filter (\<lambda>r. s_id r = sid \<and> s_user_id r = uid) (user_sessions_wa s1))
       \<and> filter (\<lambda>r. s_id r = sid \<and> s_user_id r = uid) (user_sessions_wa s1) \<noteq> []"
proof -
  from assms obtain row rows where
      f: "filter (\<lambda>r. s_id r = sid \<and> s_user_id r = uid) (user_sessions_wa s) = row # rows"
    by (auto simp: AuthService_logout_def split: list.splits)
  with assms have s1: "user_sessions_wa s1 =
       map (\<lambda>r. if s_id r = sid \<and> s_user_id r = uid
                 then r\<lparr>s_is_marked_for_deletion := True, s_marked_at := Some now\<rparr>
                 else r) (user_sessions_wa s)"
    by (auto simp: AuthService_logout_def Let_def)
  have a: "map s_id (user_sessions_wa s1) = map s_id (user_sessions_wa s)"
    unfolding s1 by (rule marked_rows_keep_ids)
  have b: "list_all s_is_marked_for_deletion
           (filter (\<lambda>r. s_id r = sid \<and> s_user_id r = uid) (user_sessions_wa s1))"
    unfolding s1 by (rule marked_rows_are_marked)
  have "length (filter (\<lambda>r. s_id r = sid \<and> s_user_id r = uid) (user_sessions_wa s1))
          = length (row # rows)"
    unfolding s1 marked_rows_stay f ..
  then have c: "filter (\<lambda>r. s_id r = sid \<and> s_user_id r = uid) (user_sessions_wa s1) \<noteq> []"
    by auto
  from a b c show ?thesis by blast
qed

subsection \<open>Pre-login termination\<close>


text \<open>
  Were the \<^verbatim>\<open>SET LOCAL\<close> statement accepted, the inner block would still leave the
  table \<^verbatim>\<open>refresh_tokens_wa\<close>, where \<^verbatim>\<open>generateTokens\<close> stores the token rows, as it
  is: its \<^verbatim>\<open>DELETE\<close> names the relation \<^verbatim>\<open>refresh_tokens\<close>.
\<close>

lemma terminate_locked_keeps_refresh_tokens_wa:
  "refresh_tokens_wa (snd (terminate_locked uid sid s)) = refresh_tokens_wa s"
  by (simp add: terminate_locked_def Let_def split: list.splits option.splits)

text \<open>
  C8. The claim: a successful pre-login termination deletes the session's refresh-token
  row and the session row and reports the remaining count, as one unit. In the code no
  pre-login termination succeeds: the \<^verbatim>\<open>SET LOCAL lock_timeout = $1\<close> statement is
  refused, so every call answers 500 and leaves every table as it was. Terminating session
  \<^verbatim>\<open>s2\<close> of user 7 answers 500, and the three session rows and the three token rows
  are still stored.
\<close>

theorem terminatePreLoginSession_always_fails:
  "terminatePreLoginSession uid sid s =
     (\<lparr>success = False, status = 500, message = ''Failed to terminate session'',
       remainingSessions = None\<rparr>, s)
   \<and> fst (terminatePreLoginSession 7 ''s2'' db3) =
     \<lparr>success = False, status = 500, message = ''Failed to terminate session'',
       remainingSessions = None\<rparr>
   \<and> map s_id (user_sessions_wa (snd (terminatePreLoginSession 7 ''s2'' db3))) = [''s1'', ''s2'', ''s3'']
   \<and> map r_id (refresh_tokens_wa (snd (terminatePreLoginSession 7 ''s2'' db3))) = [''r1'', ''r2'', ''r3'']"
proof -
  have g: "terminatePreLoginSession uid sid s =
     (\<lparr>success = False, status = 500, message = ''Failed to terminate session'',
       remainingSessions = None\<rparr>, s)"
    by (simp add: terminatePreLoginSession_def query_set_local_lock_timeout_def)
  have c1: "fst (terminatePreLoginSession 7 ''s2'' db3) =
     \<lparr>success = False, status = 500, message = ''Failed to terminate session'',
       remainingSessions = None\<rparr>" by code_simp
  have c2: "map s_id (user_sessions_wa (snd (terminatePreLoginSession 7 ''s2'' db3))) = [''s1'', ''s2'', ''s3'']"
    by code_simp
  have c3: "map r_id (refresh_tokens_wa (snd (terminatePreLoginSession 7 ''s2'' db3))) = [''r1'', ''r2'', ''r3'']"
    by code_simp
  from g c1 c2 c3 show ?thesis by blast
qed

subsection \<open>Cleanup\<close>

lemma cleanup_second_pass:
  assumes "\<forall>t\<in>set (refresh_tokens_wa s). \<not> (now1 \<le> r_expires_at t \<and> r_expires_at t < now2)"
  shows "cleanup now2 (snd (cleanup now1 s)) =
     (\<lparr>expiredTokens = 0, expiredSessions = 0, inactiveSessions = 0, markedSessions = 0\<rparr>,
      snd (cleanup now1 s))"
proof -
  define T1 where "T1 = map (\<lambda>t. if r_expires_at t < now1 \<and> \<not> r_is_revoked t
                      then t\<lparr>r_is_revoked := True\<rparr> else t) (refresh_tokens_wa s)"
  define D1 where "D1 = set (map r_token_id (filter (\<lambda>t. r_is_revoked t \<or> r_expires_at t < now1) T1))"
  define S2 where "S2 = filter (\<lambda>r. s_token_id r \<notin> D1)
                          (filter (\<lambda>r. \<not> s_is_marked_for_deletion r) (user_sessions_wa s))"
  have s1: "snd (cleanup now1 s) = s\<lparr>user_sessions_wa := S2, refresh_tokens_wa := T1\<rparr>"
    unfolding cleanup_def Let_def S2_def D1_def T1_def by simp
  have T: "r_expires_at t < now2 \<or> r_expires_at t < now1 \<Longrightarrow> r_is_revoked t" if "t \<in> set T1" for t
  proof -
    from that obtain u where u: "u \<in> set (refresh_tokens_wa s)"
       and t: "t = (if r_expires_at u < now1 \<and> \<not> r_is_revoked u then u\<lparr>r_is_revoked := True\<rparr> else u)"
      unfolding T1_def by auto
    assume "r_expires_at t < now2 \<or> r_expires_at t < now1"
    moreover from assms u have "\<not> (now1 \<le> r_expires_at u \<and> r_expires_at u < now2)"
      by blast
    ultimately show "r_is_revoked t"
      unfolding t by (cases "r_expires_at u < now1 \<and> \<not> r_is_revoked u") (simp, force)
  qed
  have a: "filter (\<lambda>t. r_expires_at t < now2 \<and> \<not> r_is_revoked t) T1 = []"
    using T by (simp add: filter_empty_conv)
  have b: "map (\<lambda>t. if r_expires_at t < now2 \<and> \<not> r_is_revoked t
                      then t\<lparr>r_is_revoked := True\<rparr> else t) T1 = T1"
    by (intro map_idI) (use T in auto)
  have c: "filter (\<lambda>t. r_is_revoked t \<or> r_expires_at t < now2) T1
         = filter (\<lambda>t. r_is_revoked t \<or> r_expires_at t < now1) T1"
    by (intro filter_cong refl) (use T in blast)
  have mem: "\<not> s_is_marked_for_deletion x \<and> s_token_id x \<notin> D1" if "x \<in> set S2" for x
    using that unfolding S2_def by simp
  have d: "filter s_is_marked_for_deletion S2 = []"
    using mem by (simp add: filter_empty_conv)
  have e: "filter (\<lambda>r. \<not> s_is_marked_for_deletion r) S2 = S2"
    by (rule filter_True) (use mem in blast)
  have f: "filter (\<lambda>r. s_token_id r \<in> D1) S2 = []"
    using mem by (simp add: filter_empty_conv)
  have g: "filter (\<lambda>r. s_token_id r \<notin> D1) S2 = S2"
    by (rule filter_True) (use mem in blast)
  have sel1: "refresh_tokens_wa (s\<lparr>user_sessions_wa := S2, refresh_tokens_wa := T1\<rparr>) = T1"
    by simp
  have sel2: "user_sessions_wa (s\<lparr>user_sessions_wa := S2, refresh_tokens_wa := T1\<rparr>) = S2"
    by simp
  have upd: "s\<lparr>user_sessions_wa := S2, refresh_tokens_wa := T1,
               user_sessions_wa := S2, refresh_tokens_wa := T1\<rparr>
             = s\<lparr>user_sessions_wa := S2, refresh_tokens_wa := T1\<rparr>"
    by simp
  have "cleanup now2 (s\<lparr>user_sessions_wa := S2, refresh_tokens_wa := T1\<rparr>) =
     (\<lparr>expiredTokens = 0, expiredSessions = 0, inactiveSessions = 0, markedSessions = 0\<rparr>,
       s\<lparr>user_sessions_wa := S2, refresh_tokens_wa := T1\<rparr>)"
    unfolding cleanup_def Let_def
    apply (simp only: sel1 sel2 a b c)
    apply (fold D1_def)
    apply (simp only: d e f g list.size upd)
    done
  then show ?thesis unfolding s1 .
qed

text \<open>
  C5. \<^verbatim>\<open>cleanup()\<close> is idempotent: when no token's expiry lies between the times of two
  consecutive runs (from the first, inclusive, to the second, exclusive), the second run
  deletes no session, revokes no token and leaves the tables as the first run left them;
  its three counts are zero.
\<close>

theorem cleanup_idempotent:
  assumes "\<forall>t\<in>set (refresh_tokens_wa s). \<not> (now1 \<le> r_expires_at t \<and> r_expires_at t < now2)"
  shows "fst (cleanup now2 (snd (cleanup now1 s))) =
           \<lparr>expiredTokens = 0, expiredSessions = 0, inactiveSessions = 0, markedSessions = 0\<rparr>
       \<and> snd (cleanup now2 (snd (cleanup now1 s))) = snd (cleanup now1 s)"
  using cleanup_second_pass [OF assms] by simp

lemma cleanup_db_marked:
  "fst (cleanup 604802500 db_marked) =
     \<lparr>expiredTokens = 2, expiredSessions = 1, inactiveSessions = 0, markedSessions = 1\<rparr>"
  by code_simp

theorem cleanup_idempotent_witness:
  "list_all (\<lambda>t. \<not> (604802500 \<le> r_expires_at t \<and> r_expires_at t < 604802900))
     (refresh_tokens_wa db_marked)
   \<and> fst (cleanup 604802500 db_marked) =
       \<lparr>expiredTokens = 2, expiredSessions = 1, inactiveSessions = 0, markedSessions = 1\<rparr>
   \<and> fst (cleanup 604802900 (snd (cleanup 604802500 db_marked))) =
       \<lparr>expiredTokens = 0, expiredSessions = 0, inactiveSessions = 0, markedSessions = 0\<rparr>
   \<and> snd (cleanup 604802900 (snd (cleanup 604802500 db_marked))) =
       snd (cleanup 604802500 db_marked)"
proof -
  have h: "\<forall>t\<in>set (refresh_tokens_wa db_marked).
       \<not> (604802500 \<le> r_expires_at t \<and> r_expires_at t < 604802900)"
    by (simp add: example_defs)
  from cleanup_idempotent [OF h] h cleanup_db_marked show ?thesis
    by (simp add: list_all_iff)
qed

end
